theory Spec2Isabelle
  imports Complex_Main
begin

section \<open>JavaScript numbers\<close>

text \<open>
  Every numeric value of the program (qubit indices, the qubit count, the style
  parameters, angles, coordinates) has the TypeScript type \<open>number\<close>: an IEEE-754
  binary64 value. A finite double is a rational, and every arithmetic operator returns
  the exact result rounded to the nearest double, ties to the even significand.

  \<^item> \<open>Num q\<close> is the finite value \<open>q\<close>; \<open>NaN\<close> is not-a-number, which is also what
    arithmetic on \<open>undefined\<close> yields.
  \<^item> \<open>fl\<close> is the rounding: 53 significant bits, with the fixed spacing
    \<open>2\<^sup>-\<^sup>1\<^sup>0\<^sup>7\<^sup>4\<close> in the subnormal range.
  \<^item> Outside the model: the two infinities (a result of magnitude \<open>2\<^sup>1\<^sup>0\<^sup>2\<^sup>4\<close> or more, or a
    nonzero number divided by zero) and the sign of zero. The program divides only by
    the literals 2 and 4 and by \<open>Math.PI\<close>, and never inspects the sign of a zero.
\<close>

datatype number = Num rat | NaN

function bit_length :: "int \<Rightarrow> int" where
  "bit_length n = (if 0 < n then bit_length (n div 2) + 1 else 0)"
  by pat_completeness auto
termination
  by (relation "measure nat") auto

declare bit_length.simps [simp del]

definition pow2 :: "int \<Rightarrow> rat" where
  "pow2 k = (if 0 \<le> k then 2 ^ nat k else 1 / 2 ^ nat (- k))"

text \<open>The binary exponent of a positive rational: \<open>pow2 e \<le> q < pow2 (e + 1)\<close>.\<close>

definition floor_log2 :: "rat \<Rightarrow> int" where
  "floor_log2 q =
     (if 1 \<le> q then bit_length \<lfloor>q\<rfloor> - 1
      else let m = bit_length \<lfloor>1 / q\<rfloor> - 1
           in if q = pow2 (- m) then - m else - m - 1)"

definition round_half_even :: "rat \<Rightarrow> int" where
  "round_half_even x =
     (let f = \<lfloor>x\<rfloor>; d = x - of_int f
      in if d < 1 / 2 then f
         else if 1 / 2 < d then f + 1
         else if even f then f else f + 1)"

definition fl :: "rat \<Rightarrow> rat" where
  "fl q =
     (if q = 0 then 0
      else let e = max (floor_log2 \<bar>q\<bar>) (- 1022);
               u = pow2 (e - 52)
           in sgn q * of_int (round_half_even (\<bar>q\<bar> / u)) * u)"

instantiation number :: "{plus, minus, times, inverse, ord}"
begin

fun plus_number :: "number \<Rightarrow> number \<Rightarrow> number" where
  "plus_number (Num a) (Num b) = Num (fl (a + b))"
| "plus_number _ _ = NaN"

fun minus_number :: "number \<Rightarrow> number \<Rightarrow> number" where
  "minus_number (Num a) (Num b) = Num (fl (a - b))"
| "minus_number _ _ = NaN"

fun times_number :: "number \<Rightarrow> number \<Rightarrow> number" where
  "times_number (Num a) (Num b) = Num (fl (a * b))"
| "times_number _ _ = NaN"

fun divide_number :: "number \<Rightarrow> number \<Rightarrow> number" where
  "divide_number (Num a) (Num b) = (if b = 0 then NaN else Num (fl (a / b)))"
| "divide_number _ _ = NaN"

definition inverse_number :: "number \<Rightarrow> number" where
  "inverse_number (x :: number) = divide (Num 1) x"

text \<open>The relational operators: a comparison with \<open>NaN\<close> is false.\<close>

fun less_number :: "number \<Rightarrow> number \<Rightarrow> bool" where
  "less_number (Num a) (Num b) = (a < b)"
| "less_number _ _ = False"

fun less_eq_number :: "number \<Rightarrow> number \<Rightarrow> bool" where
  "less_eq_number (Num a) (Num b) = (a \<le> b)"
| "less_eq_number _ _ = False"

instance ..

end

text \<open>Strict equality \<open>===\<close> on numbers: \<open>NaN\<close> is not equal to itself.\<close>

fun strict_eq :: "number \<Rightarrow> number \<Rightarrow> bool" where
  "strict_eq (Num a) (Num b) = (a = b)"
| "strict_eq _ _ = False"

text \<open>An array length or an array index as a number (exact: they are below \<open>2\<^sup>3\<^sup>2\<close>).\<close>

definition number_of_nat :: "nat \<Rightarrow> number" where
  "number_of_nat n = Num (of_nat n)"

text \<open>
  \<open>Math.PI\<close>: the double nearest to \<open>\<pi>\<close>, which is
  \<open>884279719003555 / 2\<^sup>4\<^sup>8 = 3.141592653589793115997963...\<close>
\<close>

definition Math_PI :: number where
  "Math_PI = Num (884279719003555 / 281474976710656)"

text \<open>
  Reading \<open>a[i]\<close> past the end of an array gives \<open>undefined\<close> (here \<open>None\<close>), and
  \<open>undefined\<close> in arithmetic is \<open>NaN\<close>.
\<close>

definition js_index :: "'a list \<Rightarrow> nat \<Rightarrow> 'a option" where
  "js_index xs i = (if i < length xs then Some (xs ! i) else None)"

fun ToNumber :: "number option \<Rightarrow> number" where
  "ToNumber None = NaN"
| "ToNumber (Some x) = x"

section \<open>Strings\<close>

text \<open>\<open>String.prototype.startsWith\<close>.\<close>

fun startsWith :: "string \<Rightarrow> string \<Rightarrow> bool" where
  "startsWith s [] = True"
| "startsWith [] (p # ps) = False"
| "startsWith (c # s) (p # ps) = (c = p \<and> startsWith s ps)"

definition digit_char :: "int \<Rightarrow> char" where
  "digit_char d =
     (if d = 0 then CHR ''0'' else if d = 1 then CHR ''1'' else if d = 2 then CHR ''2''
      else if d = 3 then CHR ''3'' else if d = 4 then CHR ''4'' else if d = 5 then CHR ''5''
      else if d = 6 then CHR ''6'' else if d = 7 then CHR ''7'' else if d = 8 then CHR ''8''
      else CHR ''9'')"

text \<open>The decimal digits of a non-negative integer, most significant first.\<close>

function decimal_digits :: "int \<Rightarrow> string" where
  "decimal_digits n =
     (if n < 10 then [digit_char n]
      else decimal_digits (n div 10) @ [digit_char (n mod 10)])"
  by pat_completeness auto
termination
  by (relation "measure nat") auto

declare decimal_digits.simps [simp del]

text \<open>
  \<open>Number.prototype.toFixed(f)\<close> as ECMA-262 defines it, for \<open>f\<close> from 0 to 100:
  \<^item> \<open>NaN\<close> prints as \<open>NaN\<close>;
  \<^item> the sign is taken off, and a magnitude of \<open>10\<^sup>2\<^sup>1\<close> or more prints as
    \<open>Number::toString\<close> does (exponential notation). That printer belongs to the host, so
    it is the parameter \<open>toStr\<close>;
  \<^item> otherwise \<open>n\<close> is the integer nearest to \<open>x \<times> 10\<^sup>f\<close> (the larger one on a tie), whose
    digits, padded with zeros to at least \<open>f + 1\<close> of them, get a point before the last
    \<open>f\<close>.
\<close>

definition toFixed :: "(rat \<Rightarrow> string) \<Rightarrow> number \<Rightarrow> nat \<Rightarrow> string" where
  "toFixed toStr v f =
     (case v of
        NaN \<Rightarrow> ''NaN''
      | Num q \<Rightarrow>
          let s = (if q < 0 then ''-'' else '''');
              x = \<bar>q\<bar>
          in if 10 ^ 21 \<le> x then s @ toStr x
             else
               let n = \<lfloor>x * 10 ^ f + 1 / 2\<rfloor>;
                   m = decimal_digits n;
                   m = replicate (f + 1 - length m) CHR ''0'' @ m;
                   k = length m
               in if f = 0 then s @ m
                  else s @ take (k - f) m @ ''.'' @ drop (k - f) m)"

section \<open>Gates\<close>

text \<open>
  \<open>IGate\<close> is the interface the renderer reads: a display name and the qubit indices.
  A rotation gate object carries its angle as well.
\<close>

record IGate =
  name :: string
  qubits :: "number list"

record RotationGate = IGate +
  angle :: number

text \<open>
  A constructor either returns the object or throws an \<open>Error\<close>; the three messages
  of the source are the three values of \<open>error\<close>:
  \<^item> \<open>NegativeQubit\<close>: "Qubit index must be a non-negative integer."
  \<^item> \<open>SameQubit\<close>: "Control qubit and target qubit must be different."
  \<^item> \<open>InvalidAxis\<close>: "Axis must be 'X', 'Y', or 'Z'."
\<close>

datatype error = NegativeQubit | SameQubit | InvalidAxis

definition new_HadamardGate :: "number \<Rightarrow> error + IGate" where
  "new_HadamardGate qubit =
     (if qubit < Num 0 then Inl NegativeQubit
      else Inr \<lparr>name = ''H'', qubits = [qubit]\<rparr>)"

definition new_PauliXGate :: "number \<Rightarrow> error + IGate" where
  "new_PauliXGate qubit =
     (if qubit < Num 0 then Inl NegativeQubit
      else Inr \<lparr>name = ''X'', qubits = [qubit]\<rparr>)"

definition new_PauliYGate :: "number \<Rightarrow> error + IGate" where
  "new_PauliYGate qubit =
     (if qubit < Num 0 then Inl NegativeQubit
      else Inr \<lparr>name = ''Y'', qubits = [qubit]\<rparr>)"

definition new_PauliZGate :: "number \<Rightarrow> error + IGate" where
  "new_PauliZGate qubit =
     (if qubit < Num 0 then Inl NegativeQubit
      else Inr \<lparr>name = ''Z'', qubits = [qubit]\<rparr>)"

definition new_CNOTGate :: "number \<Rightarrow> number \<Rightarrow> error + IGate" where
  "new_CNOTGate controlQubit targetQubit =
     (if strict_eq controlQubit targetQubit then Inl SameQubit
      else Inr \<lparr>name = ''CNOT'', qubits = [controlQubit, targetQubit]\<rparr>)"

text \<open>
  The rotation gate. The axis is typed \<open>"X" | "Y" | "Z"\<close>, which the compiled
  JavaScript does not enforce, so the constructor checks it again: the axis is any
  string here. The degree sign of the name is the character U+00B0.
\<close>

definition new_RotationGate ::
    "(rat \<Rightarrow> string) \<Rightarrow> string \<Rightarrow> number \<Rightarrow> number \<Rightarrow> error + RotationGate" where
  "new_RotationGate toStr axis qubit angle' =
     (if qubit < Num 0 then Inl NegativeQubit
      else if axis \<notin> set [''X'', ''Y'', ''Z''] then Inl InvalidAxis
      else
        let angleDegrees = toFixed toStr (angle' * (Num 180 / Math_PI)) 1
        in Inr \<lparr>name = ''R'' @ axis @ ''('' @ angleDegrees @ [CHR 0xB0] @ '')'',
                qubits = [qubit],
                angle = angle'\<rparr>)"

section \<open>The circuit\<close>

record Circuit =
  numQubits :: number
  gates :: "IGate list"

text \<open>The constructor stores its argument; it has no check and no \<open>throw\<close>.\<close>

definition new_Circuit :: "number \<Rightarrow> error + Circuit" where
  "new_Circuit numQubits' = Inr \<lparr>numQubits = numQubits', gates = []\<rparr>"

text \<open>
  \<open>addGate\<close> pushes the gate onto the array. The array is typed \<open>IGate[]\<close>: of a
  rotation gate the renderer sees the name and the qubits only.
\<close>

definition addGate :: "Circuit \<Rightarrow> 'a IGate_scheme \<Rightarrow> Circuit" where
  "addGate c gate = c\<lparr>gates := gates c @ [IGate.truncate gate]\<rparr>"

text \<open>What the specification calls a positive integer.\<close>

fun is_positive_integer :: "number \<Rightarrow> bool" where
  "is_positive_integer (Num q) = (0 < q \<and> of_int \<lfloor>q\<rfloor> = q)"
| "is_positive_integer NaN = False"

section \<open>The style configuration\<close>

record StyleConfig =
  qubitSpacing :: number
  gateSpacing :: number
  gateWidth :: number
  gateHeight :: number
  lineColor :: string
  lineWidth :: number
  gateFill :: string
  gateStroke :: string
  gateStrokeWidth :: number
  fontSize :: number
  fontFamily :: string
  fontColor :: string

definition DefaultStyleConfig :: StyleConfig where
  "DefaultStyleConfig =
     \<lparr>qubitSpacing = Num 50,
      gateSpacing = Num 70,
      gateWidth = Num 40,
      gateHeight = Num 40,
      lineColor = ''#000'',
      lineWidth = Num 2,
      gateFill = ''#fff'',
      gateStroke = ''#000'',
      gateStrokeWidth = Num 2,
      fontSize = Num 14,
      fontFamily = ''Arial, sans-serif'',
      fontColor = ''#000''\<rparr>"

text \<open>\<open>Partial<StyleConfig>\<close>: every key may be absent.\<close>

record PartialStyleConfig =
  qubitSpacing_opt :: "number option"
  gateSpacing_opt :: "number option"
  gateWidth_opt :: "number option"
  gateHeight_opt :: "number option"
  lineColor_opt :: "string option"
  lineWidth_opt :: "number option"
  gateFill_opt :: "string option"
  gateStroke_opt :: "string option"
  gateStrokeWidth_opt :: "number option"
  fontSize_opt :: "number option"
  fontFamily_opt :: "string option"
  fontColor_opt :: "string option"

definition no_overrides :: PartialStyleConfig where
  "no_overrides =
     \<lparr>qubitSpacing_opt = None, gateSpacing_opt = None, gateWidth_opt = None,
      gateHeight_opt = None, lineColor_opt = None, lineWidth_opt = None,
      gateFill_opt = None, gateStroke_opt = None, gateStrokeWidth_opt = None,
      fontSize_opt = None, fontFamily_opt = None, fontColor_opt = None\<rparr>"

fun override :: "'a \<Rightarrow> 'a option \<Rightarrow> 'a" where
  "override d None = d"
| "override d (Some v) = v"

text \<open>The object spread \<open>{ ...base, ...styles }\<close>: a key of \<open>styles\<close> wins.\<close>

definition spread :: "StyleConfig \<Rightarrow> PartialStyleConfig \<Rightarrow> StyleConfig" where
  "spread base p =
     \<lparr>qubitSpacing = override (qubitSpacing base) (qubitSpacing_opt p),
      gateSpacing = override (gateSpacing base) (gateSpacing_opt p),
      gateWidth = override (gateWidth base) (gateWidth_opt p),
      gateHeight = override (gateHeight base) (gateHeight_opt p),
      lineColor = override (lineColor base) (lineColor_opt p),
      lineWidth = override (lineWidth base) (lineWidth_opt p),
      gateFill = override (gateFill base) (gateFill_opt p),
      gateStroke = override (gateStroke base) (gateStroke_opt p),
      gateStrokeWidth = override (gateStrokeWidth base) (gateStrokeWidth_opt p),
      fontSize = override (fontSize base) (fontSize_opt p),
      fontFamily = override (fontFamily base) (fontFamily_opt p),
      fontColor = override (fontColor base) (fontColor_opt p)\<rparr>"

section \<open>The drawing surface\<close>

text \<open>
  The surface is the svg.js object the renderer holds. It is modelled as the record of
  the calls made on it, in order, each chain of the source being one entry:
  \<^item> \<open>AddTo sel\<close>: \<open>SVG().addTo(sel)\<close>;
  \<^item> \<open>SizeText w h\<close>: \<open>.size(w, h)\<close> with strings (\<open>"100%"\<close>);
  \<^item> \<open>Size w h\<close>: \<open>svg.size(w, h)\<close> with numbers;
  \<^item> \<open>Line x1 y1 x2 y2 width color\<close>:
    \<open>svg.line(x1, y1, x2, y2).stroke({ width, color })\<close>;
  \<^item> \<open>Rect w h x y fill width color\<close>:
    \<open>svg.rect(w, h).move(x, y).fill(fill).stroke({ width, color })\<close>;
  \<^item> \<open>Circle d x y fill stroke\<close>: \<open>svg.circle(d).move(x, y).fill(fill)\<close>, followed by
    \<open>.stroke({ width, color })\<close> when \<open>stroke\<close> is \<open>Some (width, color)\<close>;
  \<^item> \<open>Text content x y size family fill anchor baseline\<close>:
    \<open>svg.text(content).move(x, y).font({ size, family, fill })\<close>
    \<open>.attr({ "text-anchor": anchor, "dominant-baseline": baseline })\<close>.

  In svg.js, \<open>move(x, y)\<close> puts the upper left corner of the element's box at
  \<open>(x, y)\<close>, and \<open>circle(d)\<close> has diameter \<open>d\<close>.
\<close>

datatype svg_call =
    AddTo string
  | SizeText string string
  | Size number number
  | Line number number number number number string
  | Rect number number number number string number string
  | Circle number number number string "(number \<times> string) option"
  | Text string number number number string string string string

type_synonym Svg = "svg_call list"

definition emit :: "svg_call \<Rightarrow> Svg \<Rightarrow> Svg" where
  "emit c s = s @ [c]"

text \<open>\<open>Array.prototype.forEach\<close>: the callback gets the element and its index.\<close>

fun forEach_from :: "nat \<Rightarrow> ('a \<Rightarrow> nat \<Rightarrow> 's \<Rightarrow> 's) \<Rightarrow> 'a list \<Rightarrow> 's \<Rightarrow> 's" where
  "forEach_from i f [] s = s"
| "forEach_from i f (x # xs) s = forEach_from (Suc i) f xs (f x i s)"

definition forEach :: "('a \<Rightarrow> nat \<Rightarrow> 's \<Rightarrow> 's) \<Rightarrow> 'a list \<Rightarrow> 's \<Rightarrow> 's" where
  "forEach f xs s = forEach_from 0 f xs s"

section \<open>The renderer\<close>

record Renderer =
  circuit :: Circuit
  svg :: Svg
  styles :: StyleConfig

definition new_Renderer :: "Circuit \<Rightarrow> string \<Rightarrow> PartialStyleConfig option \<Rightarrow> Renderer" where
  "new_Renderer circuit' containerId styles' =
     \<lparr>circuit = circuit',
      svg = [AddTo (''#'' @ containerId), SizeText ''100%'' ''100%''],
      styles = spread DefaultStyleConfig (override no_overrides styles')\<rparr>"

text \<open>
  The loop \<open>for (let i = 0; i < numQubits; i++)\<close> of \<open>draw\<close>, from counter \<open>i\<close> on. The
  counter is a natural number here; the double counter of the source takes the same
  values as long as \<open>numQubits\<close> is at most \<open>2\<^sup>5\<^sup>3\<close>, where a double stops growing.
\<close>

function qubit_lines :: "StyleConfig \<Rightarrow> number \<Rightarrow> number \<Rightarrow> nat \<Rightarrow> Svg \<Rightarrow> Svg" where
  "qubit_lines st totalWidth numQubits' i s =
     (if number_of_nat i < numQubits' then
        let y = qubitSpacing st * (number_of_nat i + Num 1)
        in qubit_lines st totalWidth numQubits' (Suc i)
             (emit (Line (Num 0) y totalWidth y (lineWidth st) (lineColor st)) s)
      else s)"
  by pat_completeness auto
termination
proof (relation "measure (\<lambda>(st, totalWidth, numQubits', i, s).
         case numQubits' of Num q \<Rightarrow> nat \<lceil>q\<rceil> - i | NaN \<Rightarrow> 0)")
  show "wf (measure (\<lambda>(st, totalWidth, numQubits', i, s).
         case numQubits' of Num q \<Rightarrow> nat \<lceil>q\<rceil> - i | NaN \<Rightarrow> 0))"
    by simp
next
  fix st :: StyleConfig and totalWidth numQubits' :: number and i :: nat and s :: Svg and y :: number
  assume lt: "number_of_nat i < numQubits'"
  then obtain q where q: "numQubits' = Num q" and iq: "of_nat i < q"
    by (cases numQubits') (simp_all add: number_of_nat_def)
  from iq have "int i < \<lceil>q\<rceil>" by (simp add: less_ceiling_iff)
  then have "i < nat \<lceil>q\<rceil>" by simp
  then show "((st, totalWidth, numQubits', Suc i,
               emit (Line (Num 0) y totalWidth y (lineWidth st) (lineColor st)) s),
              (st, totalWidth, numQubits', i, s))
             \<in> measure (\<lambda>(st, totalWidth, numQubits', i, s).
                  case numQubits' of Num q \<Rightarrow> nat \<lceil>q\<rceil> - i | NaN \<Rightarrow> 0)"
    by (simp add: q)
qed

declare qubit_lines.simps [simp del]

text \<open>The body of the \<open>forEach\<close> over the qubits of a single-qubit gate, in \<open>draw\<close>.\<close>

definition draw_single_qubit :: "StyleConfig \<Rightarrow> IGate \<Rightarrow> number \<Rightarrow> number \<Rightarrow> Svg \<Rightarrow> Svg" where
  "draw_single_qubit st gate x qubit s =
     (let y = qubitSpacing st * (qubit + Num 1) - gateHeight st / Num 2;
          s = emit (Rect (gateWidth st) (gateHeight st) (x - gateWidth st / Num 2) y
                      (gateFill st) (gateStrokeWidth st) (gateStroke st)) s;
          s = emit (Text (name gate) x (y + gateHeight st / Num 2)
                      (fontSize st) (fontFamily st) (fontColor st)
                      ''middle'' ''middle'') s
      in s)"

definition drawCNOTGate :: "StyleConfig \<Rightarrow> IGate \<Rightarrow> number \<Rightarrow> Svg \<Rightarrow> Svg" where
  "drawCNOTGate st gate x s =
     (let controlQubit = js_index (qubits gate) 0;
          targetQubit = js_index (qubits gate) 1;
          y1 = qubitSpacing st * (ToNumber controlQubit + Num 1);
          y2 = qubitSpacing st * (ToNumber targetQubit + Num 1);
          s = emit (Circle (Num 8) (x - Num 4) (y1 - Num 4) (gateStroke st) None) s;
          s = emit (Line x y1 x y2 (lineWidth st) (lineColor st)) s;
          gateSize = Num 20;
          s = emit (Circle gateSize (x - gateSize / Num 2) (y2 - gateSize / Num 2) ''#fff''
                      (Some (gateStrokeWidth st, gateStroke st))) s;
          s = emit (Line (x - gateSize / Num 4) y2 (x + gateSize / Num 4) y2
                      (gateStrokeWidth st) (gateStroke st)) s;
          s = emit (Line x (y2 - gateSize / Num 4) x (y2 + gateSize / Num 4)
                      (gateStrokeWidth st) (gateStroke st)) s
      in s)"

definition draw_rotation_qubit :: "StyleConfig \<Rightarrow> IGate \<Rightarrow> number \<Rightarrow> number \<Rightarrow> Svg \<Rightarrow> Svg" where
  "draw_rotation_qubit st gate x qubit s =
     (let y = qubitSpacing st * (qubit + Num 1) - gateHeight st / Num 2;
          s = emit (Rect (gateWidth st) (gateHeight st) (x - gateWidth st / Num 2) y
                      (gateFill st) (gateStrokeWidth st) (gateStroke st)) s;
          s = emit (Text (name gate) x (y + gateHeight st / Num 2)
                      (fontSize st - Num 2) (fontFamily st) (fontColor st)
                      ''middle'' ''middle'') s
      in s)"

definition drawRotationGate :: "StyleConfig \<Rightarrow> IGate \<Rightarrow> number \<Rightarrow> Svg \<Rightarrow> Svg" where
  "drawRotationGate st gate x s =
     forEach (\<lambda>qubit index. draw_rotation_qubit st gate x qubit) (qubits gate) s"

text \<open>
  The body of \<open>gates.forEach((gate, index) => ...)\<close> in \<open>draw\<close>: the offset \<open>x\<close> of the
  gate, then the three branches (\<open>draw_gate_at\<close>).
\<close>

definition draw_gate_at :: "StyleConfig \<Rightarrow> IGate \<Rightarrow> number \<Rightarrow> Svg \<Rightarrow> Svg" where
  "draw_gate_at st gate x s =
     (if name gate = ''CNOT'' then drawCNOTGate st gate x s
      else if startsWith (name gate) ''R'' then drawRotationGate st gate x s
      else forEach (\<lambda>qubit index. draw_single_qubit st gate x qubit) (qubits gate) s)"

definition draw_gate :: "StyleConfig \<Rightarrow> IGate \<Rightarrow> nat \<Rightarrow> Svg \<Rightarrow> Svg" where
  "draw_gate st gate index s =
     (let x = gateSpacing st * (number_of_nat index + Num 1)
      in draw_gate_at st gate x s)"

definition draw :: "Renderer \<Rightarrow> Renderer" where
  "draw r =
     (let numQubits' = numQubits (circuit r);
          gates' = gates (circuit r);
          st = styles r;
          totalWidth = gateSpacing st * (number_of_nat (length gates') + Num 1);
          s = emit (Size (totalWidth + gateSpacing st)
                      (qubitSpacing st * (numQubits' + Num 1))) (svg r);
          s = qubit_lines st totalWidth numQubits' 0 s;
          s = forEach (draw_gate st) gates' s
      in r\<lparr>svg := s\<rparr>)"

text \<open>
  The three ways \<open>draw\<close> has of drawing a gate, and the one its tests on the name
  select.
\<close>

datatype strategy = ControlTarget | RotationBox | SingleBox

definition dispatch :: "string \<Rightarrow> strategy" where
  "dispatch nm =
     (if nm = ''CNOT'' then ControlTarget
      else if startsWith nm ''R'' then RotationBox
      else SingleBox)"

text \<open>The size the canvas has after the calls \<open>s\<close>: that of the last \<open>size(w, h)\<close>.\<close>

fun canvas_size :: "Svg \<Rightarrow> (number \<times> number) option" where
  "canvas_size [] = None"
| "canvas_size (c # s) =
     (case canvas_size s of
        Some wh \<Rightarrow> Some wh
      | None \<Rightarrow> (case c of Size w h \<Rightarrow> Some (w, h) | _ \<Rightarrow> None))"

text \<open>The calls one invocation of \<open>draw\<close> adds to the surface.\<close>

definition emitted :: "Renderer \<Rightarrow> svg_call list" where
  "emitted r = drop (length (svg r)) (svg (draw r))"

text \<open>How often the loop over the qubits runs: the integers from 0 below \<open>numQubits\<close>.\<close>

fun line_count :: "number \<Rightarrow> nat" where
  "line_count (Num q) = nat \<lceil>q\<rceil>"
| "line_count NaN = 0"

text \<open>The line \<open>draw\<close> adds for qubit \<open>i\<close>, from 0 to the total width.\<close>

definition baseline :: "StyleConfig \<Rightarrow> number \<Rightarrow> nat \<Rightarrow> svg_call" where
  "baseline st totalWidth i =
     (let y = qubitSpacing st * (number_of_nat i + Num 1)
      in Line (Num 0) y totalWidth y (lineWidth st) (lineColor st))"

text \<open>The column of the gate at position \<open>index\<close>, in units of the gate spacing.\<close>

definition column :: "nat \<Rightarrow> number" where
  "column index = number_of_nat index + Num 1"

text \<open>
  A gate the renderer treats as a single-qubit gate on qubit \<open>q\<close>: it is not sent to
  the CNOT branch and its qubit array is \<open>[q]\<close>.
\<close>

definition single_qubit_gate_on :: "IGate \<Rightarrow> number \<Rightarrow> bool" where
  "single_qubit_gate_on gate q = (name gate \<noteq> ''CNOT'' \<and> qubits gate = [q])"

text \<open>
  The circuit of the README: two qubits, a Hadamard gate on qubit 0, then a CNOT gate
  with control 0 and target 1; and its renderer with the default styles.
\<close>

definition example_circuit :: Circuit where
  "example_circuit =
     \<lparr>numQubits = Num 2,
      gates = [\<lparr>name = ''H'', qubits = [Num 0]\<rparr>,
               \<lparr>name = ''CNOT'', qubits = [Num 0, Num 1]\<rparr>]\<rparr>"

definition example_renderer :: Renderer where
  "example_renderer = new_Renderer example_circuit ''circuit-container'' None"

section \<open>Properties\<close>

subsection \<open>Rounding is exact on the integers up to \<open>2\<^sup>5\<^sup>3\<close>\<close>

lemma round_half_even_of_int: "round_half_even (of_int k) = k"
  by (simp add: round_half_even_def)

lemma bit_length_bounds:
  "0 < n \<Longrightarrow> 0 < bit_length n \<and> 2 ^ nat (bit_length n - 1) \<le> n \<and> n < 2 ^ nat (bit_length n)"
proof (induction n rule: bit_length.induct)
  case (1 n)
  show ?case
  proof (cases "n = 1")
    case True
    then show ?thesis by (simp add: bit_length.simps[of 1] bit_length.simps[of 0])
  next
    case False
    with "1.prems" have h: "0 < n div 2" by simp
    from "1.IH"[OF "1.prems" h] have ih: "0 < bit_length (n div 2)"
      "2 ^ nat (bit_length (n div 2) - 1) \<le> n div 2" "n div 2 < 2 ^ nat (bit_length (n div 2))"
      by simp_all
    have bl: "bit_length n = bit_length (n div 2) + 1"
      using "1.prems" by (subst bit_length.simps) simp
    have e1: "nat (bit_length n - 1) = Suc (nat (bit_length (n div 2) - 1))"
      using ih(1) bl by simp
    have e2: "nat (bit_length n) = Suc (nat (bit_length (n div 2)))"
      using ih(1) bl by simp
    show ?thesis using ih bl unfolding e1 e2 by simp linarith
  qed
qed

lemma fl_of_int:
  assumes "\<bar>n\<bar> \<le> 2 ^ 53"
  shows "fl (of_int n) = of_int n"
proof (cases "n = 0")
  case True
  then show ?thesis by (simp add: fl_def)
next
  case False
  define a where "a = \<bar>n\<bar>"
  define e where "e = bit_length a - 1"
  define u where "u = pow2 (e - 52)"
  have a1: "1 \<le> a" and a53: "a \<le> 2 ^ 53"
    using False assms by (simp_all add: a_def)
  have abs_eq: "\<bar>of_int n :: rat\<bar> = of_int a"
    by (simp add: a_def)
  from bit_length_bounds[of a] a1
  have e0: "0 \<le> e" and lo: "2 ^ nat e \<le> a" and hi: "a < 2 ^ nat (e + 1)"
    by (simp_all add: e_def)
  have fl2: "floor_log2 (of_int a) = e"
    using a1 by (simp add: floor_log2_def e_def)
  have "(2::int) ^ nat e \<le> 2 ^ 53" using lo a53 by linarith
  then have e53: "nat e \<le> 53"
    using power_le_imp_le_exp[of "2 :: int" "nat e" 53] by simp
  have upos: "u \<noteq> 0" by (simp add: u_def pow2_def)
  have "\<exists>k. (of_int a :: rat) / u = of_int k"
  proof (cases "e \<le> 52")
    case True
    then have "u = 1 / 2 ^ nat (52 - e)" by (simp add: u_def pow2_def)
    then have "(of_int a :: rat) / u = of_int (a * 2 ^ nat (52 - e))" by simp
    then show ?thesis by blast
  next
    case False
    with e53 e0 have e_eq: "e = 53" by linarith
    with lo a53 have "a = 2 ^ 53" by simp
    moreover have "u = 2" using e_eq by (simp add: u_def pow2_def)
    ultimately have "(of_int a :: rat) / u = of_int (2 ^ 52)" by simp
    then show ?thesis by blast
  qed
  then obtain k where k: "(of_int a :: rat) / u = of_int k" by blast
  then have ku: "(of_int k :: rat) * u = of_int a" using upos by (simp add: field_simps)
  have sg: "sgn (of_int n :: rat) * of_int a = of_int n"
    unfolding a_def by (simp add: sgn_if)
  have "fl (of_int n) = sgn (of_int n) * of_int (round_half_even (of_int a / u)) * u"
    using False e0 by (simp add: fl_def abs_eq fl2 u_def Let_def max_def)
  also have "\<dots> = sgn (of_int n) * (of_int k * u)"
    by (simp add: k round_half_even_of_int)
  also have "\<dots> = of_int n" by (simp add: ku sg)
  finally show ?thesis .
qed

lemma fl_numeral: "numeral k \<le> (9007199254740992 :: int) \<Longrightarrow> fl (numeral k) = numeral k"
  using fl_of_int[of "numeral k"] by simp

lemma fl_neg_numeral:
  "numeral k \<le> (9007199254740992 :: int) \<Longrightarrow> fl (- numeral k) = - numeral k"
  using fl_of_int[of "- numeral k"] by simp

lemma fl_0: "fl 0 = 0"
  by (simp add: fl_def)

lemma fl_1: "fl 1 = 1"
  using fl_of_int[of 1] by simp

lemmas fl_small = fl_numeral fl_neg_numeral fl_0 fl_1

lemma column_Suc: "j < 2 ^ 53 \<Longrightarrow> column j = number_of_nat (Suc j)"
proof -
  assume "j < 2 ^ 53"
  then have "\<bar>int j + 1\<bar> \<le> 2 ^ 53" by simp
  from fl_of_int[OF this] show ?thesis
    by (simp add: column_def number_of_nat_def add.commute)
qed

lemma column_inj: "j < 2 ^ 53 \<Longrightarrow> k < 2 ^ 53 \<Longrightarrow> column j = column k \<Longrightarrow> j = k"
  by (simp add: column_Suc number_of_nat_def)

subsection \<open>What the loops of the renderer add to the surface\<close>

lemma forEach_from_append:
  assumes "\<And>x i s. f x i s = s @ g x i"
  shows "forEach_from k f xs s = s @ concat (map (\<lambda>j. g (xs ! j) (k + j)) [0..<length xs])"
proof (induction xs arbitrary: k s)
  case Nil
  show ?case by simp
next
  case (Cons x xs)
  have "forEach_from k f (x # xs) s = forEach_from (Suc k) f xs (s @ g x k)"
    by (simp add: assms[of x k s])
  also have "\<dots> = (s @ g x k) @ concat (map (\<lambda>j. g (xs ! j) (Suc k + j)) [0..<length xs])"
    by (rule Cons.IH)
  also have "\<dots> = s @ concat (map (\<lambda>j. g ((x # xs) ! j) (k + j)) [0..<length (x # xs)])"
    by (simp add: map_upt_Suc del: upt_Suc)
  finally show ?case .
qed

lemma forEach_append:
  assumes "\<And>x i s. f x i s = s @ g x i"
  shows "forEach f xs s = s @ concat (map (\<lambda>j. g (xs ! j) j) [0..<length xs])"
  using forEach_from_append[of f g 0 xs s, OF assms] by (simp add: forEach_def)

lemma lt_line_count: "number_of_nat i < nq \<longleftrightarrow> i < line_count nq"
proof (cases nq)
  case (Num q)
  have "of_nat i < q \<longleftrightarrow> int i < \<lceil>q\<rceil>"
    by (simp add: less_ceiling_iff)
  moreover have "int i < \<lceil>q\<rceil> \<longleftrightarrow> i < nat \<lceil>q\<rceil>"
    by linarith
  ultimately show ?thesis using Num by (simp add: number_of_nat_def)
next
  case NaN
  then show ?thesis by (simp add: number_of_nat_def)
qed

lemma qubit_lines_closed:
  "qubit_lines st tw nq i s = s @ map (baseline st tw) [i..<line_count nq]"
proof (induction st tw nq i s rule: qubit_lines.induct)
  case (1 st tw nq i s)
  show ?case
  proof (cases "number_of_nat i < nq")
    case True
    then have il: "i < line_count nq" by (simp add: lt_line_count)
    have "qubit_lines st tw nq i s = qubit_lines st tw nq (Suc i) (emit (baseline st tw i) s)"
      using True by (subst qubit_lines.simps) (simp add: baseline_def Let_def)
    also have "\<dots> = emit (baseline st tw i) s @ map (baseline st tw) [Suc i..<line_count nq]"
      using "1.IH"[OF True refl] by (simp add: baseline_def Let_def)
    also have "\<dots> = s @ map (baseline st tw) [i..<line_count nq]"
      using il by (simp add: emit_def upt_conv_Cons)
    finally show ?thesis .
  next
    case False
    then have il: "\<not> i < line_count nq" by (simp add: lt_line_count)
    have "qubit_lines st tw nq i s = s"
      using False by (subst qubit_lines.simps) simp
    then show ?thesis using il by simp
  qed
qed

lemma draw_single_qubit_closed:
  "draw_single_qubit st gate x qubit s =
     s @ [Rect (gateWidth st) (gateHeight st) (x - gateWidth st / Num 2)
            (qubitSpacing st * (qubit + Num 1) - gateHeight st / Num 2)
            (gateFill st) (gateStrokeWidth st) (gateStroke st),
          Text (name gate) x
            (qubitSpacing st * (qubit + Num 1) - gateHeight st / Num 2 + gateHeight st / Num 2)
            (fontSize st) (fontFamily st) (fontColor st) ''middle'' ''middle'']"
  by (simp add: draw_single_qubit_def emit_def Let_def)

lemma draw_rotation_qubit_closed:
  "draw_rotation_qubit st gate x qubit s =
     s @ [Rect (gateWidth st) (gateHeight st) (x - gateWidth st / Num 2)
            (qubitSpacing st * (qubit + Num 1) - gateHeight st / Num 2)
            (gateFill st) (gateStrokeWidth st) (gateStroke st),
          Text (name gate) x
            (qubitSpacing st * (qubit + Num 1) - gateHeight st / Num 2 + gateHeight st / Num 2)
            (fontSize st - Num 2) (fontFamily st) (fontColor st) ''middle'' ''middle'']"
  by (simp add: draw_rotation_qubit_def emit_def Let_def)

lemma drawCNOTGate_closed:
  "drawCNOTGate st gate x s =
     s @ [Circle (Num 8) (x - Num 4)
            (qubitSpacing st * (ToNumber (js_index (qubits gate) 0) + Num 1) - Num 4)
            (gateStroke st) None,
          Line x (qubitSpacing st * (ToNumber (js_index (qubits gate) 0) + Num 1))
               x (qubitSpacing st * (ToNumber (js_index (qubits gate) 1) + Num 1))
               (lineWidth st) (lineColor st),
          Circle (Num 20) (x - Num 20 / Num 2)
            (qubitSpacing st * (ToNumber (js_index (qubits gate) 1) + Num 1) - Num 20 / Num 2)
            ''#fff'' (Some (gateStrokeWidth st, gateStroke st)),
          Line (x - Num 20 / Num 4)
               (qubitSpacing st * (ToNumber (js_index (qubits gate) 1) + Num 1))
               (x + Num 20 / Num 4)
               (qubitSpacing st * (ToNumber (js_index (qubits gate) 1) + Num 1))
               (gateStrokeWidth st) (gateStroke st),
          Line x (qubitSpacing st * (ToNumber (js_index (qubits gate) 1) + Num 1) - Num 20 / Num 4)
               x (qubitSpacing st * (ToNumber (js_index (qubits gate) 1) + Num 1) + Num 20 / Num 4)
               (gateStrokeWidth st) (gateStroke st)]"
  by (simp add: drawCNOTGate_def emit_def Let_def)

lemma draw_gate_at_append: "draw_gate_at st gate x s = s @ draw_gate_at st gate x []"
proof -
  have rot: "\<And>t. drawRotationGate st gate x t =
      t @ concat (map (\<lambda>j. draw_rotation_qubit st gate x (qubits gate ! j) []) [0..<length (qubits gate)])"
    unfolding drawRotationGate_def
    by (rule forEach_append) (simp add: draw_rotation_qubit_closed)
  have sgl: "\<And>t. forEach (\<lambda>qubit index. draw_single_qubit st gate x qubit) (qubits gate) t =
      t @ concat (map (\<lambda>j. draw_single_qubit st gate x (qubits gate ! j) []) [0..<length (qubits gate)])"
    by (rule forEach_append) (simp add: draw_single_qubit_closed)
  show ?thesis
    unfolding draw_gate_at_def
    by (simp add: drawCNOTGate_closed rot[of s] rot[of "[]"] sgl[of s] sgl[of "[]"])
qed

lemma draw_gate_append:
  "draw_gate st gate index s = s @ draw_gate_at st gate (gateSpacing st * column index) []"
  using draw_gate_at_append[of st gate "gateSpacing st * column index" s]
  by (simp add: draw_gate_def column_def Let_def)

lemma svg_draw:
  "svg (draw r) =
     svg r
     @ [Size (gateSpacing (styles r) * (number_of_nat (length (gates (circuit r))) + Num 1)
               + gateSpacing (styles r))
             (qubitSpacing (styles r) * (numQubits (circuit r) + Num 1))]
     @ map (baseline (styles r)
              (gateSpacing (styles r) * (number_of_nat (length (gates (circuit r))) + Num 1)))
         [0..<line_count (numQubits (circuit r))]
     @ concat (map (\<lambda>j. draw_gate_at (styles r) (gates (circuit r) ! j)
                           (gateSpacing (styles r) * column j) [])
                 [0..<length (gates (circuit r))])"
proof -
  have g: "\<And>t. forEach (draw_gate (styles r)) (gates (circuit r)) t =
      t @ concat (map (\<lambda>j. draw_gate_at (styles r) (gates (circuit r) ! j)
                           (gateSpacing (styles r) * column j) [])
                 [0..<length (gates (circuit r))])"
    by (rule forEach_append) (rule draw_gate_append)
  show ?thesis
    by (simp add: draw_def Let_def g qubit_lines_closed emit_def)
qed

subsection \<open>The elements one invocation of \<open>draw\<close> emits\<close>

lemma emitted_draw:
  "emitted r =
     [Size (gateSpacing (styles r) * (number_of_nat (length (gates (circuit r))) + Num 1)
              + gateSpacing (styles r))
           (qubitSpacing (styles r) * (numQubits (circuit r) + Num 1))]
     @ map (baseline (styles r)
              (gateSpacing (styles r) * (number_of_nat (length (gates (circuit r))) + Num 1)))
         [0..<line_count (numQubits (circuit r))]
     @ concat (map (\<lambda>j. draw_gate_at (styles r) (gates (circuit r) ! j)
                           (gateSpacing (styles r) * column j) [])
                 [0..<length (gates (circuit r))])"
  by (simp add: emitted_def svg_draw)

lemma map_nth_upt: "map (\<lambda>j. f (xs ! j)) [0..<length xs] = map f xs"
proof -
  have "map (\<lambda>j. f (xs ! j)) [0..<length xs] = map f (map ((!) xs) [0..<length xs])"
    by simp
  then show ?thesis by (simp only: map_nth)
qed

lemma draw_gate_at_elements:
  "draw_gate_at st gate x [] =
     (if name gate = ''CNOT'' then
        [Circle (Num 8) (x - Num 4)
           (qubitSpacing st * (ToNumber (js_index (qubits gate) 0) + Num 1) - Num 4)
           (gateStroke st) None,
         Line x (qubitSpacing st * (ToNumber (js_index (qubits gate) 0) + Num 1))
              x (qubitSpacing st * (ToNumber (js_index (qubits gate) 1) + Num 1))
           (lineWidth st) (lineColor st),
         Circle (Num 20) (x - Num 10)
           (qubitSpacing st * (ToNumber (js_index (qubits gate) 1) + Num 1) - Num 10)
           ''#fff'' (Some (gateStrokeWidth st, gateStroke st)),
         Line (x - Num 5) (qubitSpacing st * (ToNumber (js_index (qubits gate) 1) + Num 1))
              (x + Num 5) (qubitSpacing st * (ToNumber (js_index (qubits gate) 1) + Num 1))
           (gateStrokeWidth st) (gateStroke st),
         Line x (qubitSpacing st * (ToNumber (js_index (qubits gate) 1) + Num 1) - Num 5)
              x (qubitSpacing st * (ToNumber (js_index (qubits gate) 1) + Num 1) + Num 5)
           (gateStrokeWidth st) (gateStroke st)]
      else
        concat (map (\<lambda>qubit.
          [Rect (gateWidth st) (gateHeight st) (x - gateWidth st / Num 2)
             (qubitSpacing st * (qubit + Num 1) - gateHeight st / Num 2)
             (gateFill st) (gateStrokeWidth st) (gateStroke st),
           Text (name gate) x
             (qubitSpacing st * (qubit + Num 1) - gateHeight st / Num 2
                + gateHeight st / Num 2)
             (if startsWith (name gate) ''R'' then fontSize st - Num 2 else fontSize st)
             (fontFamily st) (fontColor st) ''middle'' ''middle''])
          (qubits gate)))"
proof -
  have rot: "drawRotationGate st gate x [] =
      concat (map (\<lambda>j. draw_rotation_qubit st gate x (qubits gate ! j) [])
                [0..<length (qubits gate)])"
    unfolding drawRotationGate_def
    using forEach_append[of "\<lambda>qubit index. draw_rotation_qubit st gate x qubit"
        "\<lambda>qubit index. draw_rotation_qubit st gate x qubit []" "qubits gate" "[]"]
    by (simp add: draw_rotation_qubit_closed)
  have sgl: "forEach (\<lambda>qubit index. draw_single_qubit st gate x qubit) (qubits gate) [] =
      concat (map (\<lambda>j. draw_single_qubit st gate x (qubits gate ! j) [])
                [0..<length (qubits gate)])"
    using forEach_append[of "\<lambda>qubit index. draw_single_qubit st gate x qubit"
        "\<lambda>qubit index. draw_single_qubit st gate x qubit []" "qubits gate" "[]"]
    by (simp add: draw_single_qubit_closed)
  show ?thesis
    unfolding draw_gate_at_def rot sgl
      map_nth_upt[of "\<lambda>q. draw_rotation_qubit st gate x q []" "qubits gate"]
      map_nth_upt[of "\<lambda>q. draw_single_qubit st gate x q []" "qubits gate"]
    by (simp add: drawCNOTGate_closed fl_small draw_rotation_qubit_closed
        draw_single_qubit_closed)
qed

lemma upt_split: "j < n \<Longrightarrow> [0..<n] = [0..<j] @ j # [Suc j..<n]"
proof -
  assume "j < n"
  then have "[0..<n] = [0..<j] @ [j..<n]"
    using upt_add_eq_append[of 0 j "n - j"] by simp
  with \<open>j < n\<close> show ?thesis by (simp add: upt_conv_Cons)
qed

lemma emitted_split:
  assumes "j < length (gates (circuit r))"
  shows "emitted r =
     Size (gateSpacing (styles r) * (number_of_nat (length (gates (circuit r))) + Num 1)
              + gateSpacing (styles r))
          (qubitSpacing (styles r) * (numQubits (circuit r) + Num 1))
     # map (baseline (styles r)
              (gateSpacing (styles r) * (number_of_nat (length (gates (circuit r))) + Num 1)))
         [0..<line_count (numQubits (circuit r))]
     @ concat (map (\<lambda>k. draw_gate_at (styles r) (gates (circuit r) ! k)
                           (gateSpacing (styles r) * (number_of_nat k + Num 1)) [])
                 [0..<j])
     @ draw_gate_at (styles r) (gates (circuit r) ! j)
         (gateSpacing (styles r) * (number_of_nat j + Num 1)) []
     @ concat (map (\<lambda>k. draw_gate_at (styles r) (gates (circuit r) ! k)
                           (gateSpacing (styles r) * (number_of_nat k + Num 1)) [])
                 [Suc j..<length (gates (circuit r))])"
  unfolding emitted_draw upt_split[OF assms] by (simp add: column_def)

subsection \<open>The canvas size\<close>

lemma canvas_size_append:
  "canvas_size (s @ t) = (case canvas_size t of Some wh \<Rightarrow> Some wh | None \<Rightarrow> canvas_size s)"
  by (induction s) (auto split: option.splits)

lemma canvas_size_no_Size:
  "\<forall>c \<in> set t. \<forall>w h. c \<noteq> Size w h \<Longrightarrow> canvas_size t = None"
  by (induction t) (auto split: option.splits svg_call.splits)

lemma canvas_size_baselines: "canvas_size (map (baseline st tw) ks) = None"
  by (rule canvas_size_no_Size) (auto simp: baseline_def Let_def)

lemma set_forEach_calls:
  assumes "\<And>x i s. f x i s = s @ g x i"
    and "c \<in> set (forEach f xs [])"
  shows "\<exists>x i. c \<in> set (g x i)"
  using assms(2) unfolding forEach_append[of f g xs "[]", OF assms(1)] by auto

lemma canvas_size_gate: "canvas_size (draw_gate_at st gate x []) = None"
proof (rule canvas_size_no_Size, rule ballI)
  fix c
  assume c: "c \<in> set (draw_gate_at st gate x [])"
  show "\<forall>w h. c \<noteq> Size w h"
  proof (cases "name gate = ''CNOT''")
    case True
    with c show ?thesis by (auto simp: draw_gate_at_def drawCNOTGate_closed)
  next
    case False
    show ?thesis
    proof (cases "startsWith (name gate) ''R''")
      case True
      with False c have "c \<in> set (forEach (\<lambda>qubit index. draw_rotation_qubit st gate x qubit) (qubits gate) [])"
        by (simp add: draw_gate_at_def drawRotationGate_def)
      from set_forEach_calls[OF _ this, of "\<lambda>qubit index. draw_rotation_qubit st gate x qubit []"]
      show ?thesis by (auto simp: draw_rotation_qubit_closed)
    next
      case R: False
      with False c have "c \<in> set (forEach (\<lambda>qubit index. draw_single_qubit st gate x qubit) (qubits gate) [])"
        by (simp add: draw_gate_at_def)
      from set_forEach_calls[OF _ this, of "\<lambda>qubit index. draw_single_qubit st gate x qubit []"]
      show ?thesis by (auto simp: draw_single_qubit_closed)
    qed
  qed
qed

lemma canvas_size_gates:
  "canvas_size (concat (map (\<lambda>j. draw_gate_at st (f j) (g j) []) js)) = None"
  by (induction js) (simp_all add: canvas_size_append canvas_size_gate)

lemma canvas_size_draw:
  "canvas_size (svg (draw r)) =
     Some (gateSpacing (styles r) * (number_of_nat (length (gates (circuit r))) + Num 1)
             + gateSpacing (styles r),
           qubitSpacing (styles r) * (numQubits (circuit r) + Num 1))"
  by (simp add: svg_draw canvas_size_append canvas_size_gates canvas_size_baselines)

lemma example_circuit_built:
  assumes "new_Circuit (Num 2) = Inr c"
    and "new_HadamardGate (Num 0) = Inr h"
    and "new_CNOTGate (Num 0) (Num 1) = Inr cx"
  shows "addGate (addGate c h) cx = example_circuit"
  using assms
  by (auto simp: new_Circuit_def new_HadamardGate_def new_CNOTGate_def addGate_def
      example_circuit_def IGate.truncate_def split: if_splits)

lemma example_styles: "styles example_renderer = DefaultStyleConfig"
  by (simp add: example_renderer_def new_Renderer_def spread_def no_overrides_def
      DefaultStyleConfig_def)

lemma example_circuit_of: "circuit example_renderer = example_circuit"
  by (simp add: example_renderer_def new_Renderer_def)

text \<open>
  Claim C1, as the code has it. \<open>draw\<close> resizes the canvas once, before it draws: to the
  width \<open>gateSpacing \<times> (gateCount + 1) + gateSpacing\<close>, one gate spacing more than the
  width \<open>gateSpacing \<times> (gateCount + 1)\<close> the qubit lines span, and to the height
  \<open>qubitSpacing \<times> (numQubits + 1)\<close>. This holds for every circuit and every style
  configuration.
\<close>

theorem draw_canvas_size:
  "canvas_size (svg (draw r)) =
     Some (gateSpacing (styles r) * (number_of_nat (length (gates (circuit r))) + Num 1)
             + gateSpacing (styles r),
           qubitSpacing (styles r) * (numQubits (circuit r) + Num 1))"
proof -
  let ?size = "Size (gateSpacing (styles r)
                       * (number_of_nat (length (gates (circuit r))) + Num 1)
                     + gateSpacing (styles r))
                    (qubitSpacing (styles r) * (numQubits (circuit r) + Num 1))"
  obtain rest where rest: "svg (draw r) = svg r @ [?size] @ rest"
    and none: "canvas_size rest = None"
    using svg_draw[of r]
    by (simp add: canvas_size_append canvas_size_gates canvas_size_baselines)
  show ?thesis
    unfolding rest by (simp add: canvas_size_append none)
qed

theorem draw_canvas_size_witness:
  "canvas_size (svg (draw example_renderer)) = Some (Num 280, Num 150)"
  using draw_canvas_size[of example_renderer]
  by (simp add: example_styles example_circuit_of example_circuit_def DefaultStyleConfig_def
      number_of_nat_def fl_small)

text \<open>
  The README's circuit (two gates) with the default styles (gate spacing 70): the canvas
  is 280 wide, and \<open>gateSpacing \<times> (gateCount + 1)\<close> is 210.
\<close>

theorem draw_canvas_width_counterexample:
  "canvas_size (svg (draw example_renderer)) = Some (Num 280, Num 150)
   \<and> gateSpacing (styles example_renderer)
       * (number_of_nat (length (gates (circuit example_renderer))) + Num 1) = Num 210
   \<and> Num 280 \<noteq> Num 210"
  by (simp add: canvas_size_draw example_styles example_circuit_of example_circuit_def
      DefaultStyleConfig_def number_of_nat_def fl_small)

subsection \<open>Gate construction\<close>

lemma single_qubit_constructors_fail_iff:
  "(\<exists>e. new_HadamardGate q = Inl e) \<longleftrightarrow> q < Num 0"
  "(\<exists>e. new_PauliXGate q = Inl e) \<longleftrightarrow> q < Num 0"
  "(\<exists>e. new_PauliYGate q = Inl e) \<longleftrightarrow> q < Num 0"
  "(\<exists>e. new_PauliZGate q = Inl e) \<longleftrightarrow> q < Num 0"
  by (simp_all add: new_HadamardGate_def new_PauliXGate_def new_PauliYGate_def
      new_PauliZGate_def)

lemma new_RotationGate_fails_iff:
  "(\<exists>e. new_RotationGate toStr axis q a = Inl e) \<longleftrightarrow>
     q < Num 0 \<or> axis \<notin> {''X'', ''Y'', ''Z''}"
  by (simp add: new_RotationGate_def Let_def)

lemma new_CNOTGate_fails_iff:
  "(\<exists>e. new_CNOTGate c t = Inl e) \<longleftrightarrow> strict_eq c t"
  by (simp add: new_CNOTGate_def)

text \<open>
  Claim C2, at the input where the code departs from it. The control index \<open>-1\<close> is
  negative; the CNOT constructor, which only compares control and target, returns the
  gate, while the Hadamard constructor refuses the same index.
\<close>

theorem new_CNOTGate_accepts_negative_qubit:
  "Num (- 1) < Num 0
   \<and> new_CNOTGate (Num (- 1)) (Num 0) = Inr \<lparr>name = ''CNOT'', qubits = [Num (- 1), Num 0]\<rparr>
   \<and> new_HadamardGate (Num (- 1)) = Inl NegativeQubit"
  by (simp add: new_CNOTGate_def new_HadamardGate_def)

subsection \<open>Circuit construction\<close>

lemma new_Circuit_succeeds:
  "\<exists>c. new_Circuit n = Inr c \<and> numQubits c = n \<and> gates c = []"
  by (simp add: new_Circuit_def)

text \<open>
  Claim C3, as the code has it. Constructing a circuit never fails: for every value of
  \<open>numQubits\<close>, a positive integer or not, the constructor returns a circuit that holds
  this value and no gate.
\<close>

theorem new_Circuit_never_fails:
  "\<exists>c. new_Circuit n = Inr c \<and> numQubits c = n \<and> gates c = []"
  by (rule new_Circuit_succeeds)

theorem new_Circuit_never_fails_witness:
  "\<exists>c. new_Circuit (Num (5 / 2)) = Inr c \<and> numQubits c = Num (5 / 2) \<and> gates c = []"
  by (rule new_Circuit_never_fails)

text \<open>Zero is not a positive integer, and the constructor returns a circuit for it.\<close>

theorem new_Circuit_zero_counterexample:
  "\<not> is_positive_integer (Num 0)
   \<and> new_Circuit (Num 0) = Inr \<lparr>numQubits = Num 0, gates = []\<rparr>"
  by (simp add: new_Circuit_def)

subsection \<open>The label of a rotation gate\<close>

lemma deg_per_rad: "Num 180 / Math_PI = Num (1007958012753983 / 17592186044416)"
  by code_simp

lemma quarter_pi: "Math_PI / Num 4 = Num (884279719003555 / 1125899906842624)"
  by code_simp

lemma quarter_pi_deg:
  "Num (884279719003555 / 1125899906842624) * Num (1007958012753983 / 17592186044416) = Num 45"
  by code_simp

lemma pi_deg: "Math_PI * Num (1007958012753983 / 17592186044416) = Num 180"
  by code_simp

lemma toFixed_45: "toFixed toStr (Num 45) 1 = ''45.0''"
  by code_simp

lemma toFixed_180: "toFixed toStr (Num 180) 1 = ''180.0''"
  by code_simp

lemma new_RotationGate_Y_quarter:
  assumes "\<not> q < Num 0"
  shows "new_RotationGate toStr ''Y'' q (Math_PI / Num 4)
     = Inr \<lparr>name = ''RY(45.0'' @ [CHR 0xB0] @ '')'', qubits = [q], angle = Math_PI / Num 4\<rparr>"
proof -
  have deg: "Math_PI / Num 4 * (Num 180 / Math_PI) = Num 45"
    by (simp only: deg_per_rad quarter_pi quarter_pi_deg)
  have ax: "''Y'' \<in> set [''X'', ''Y'', ''Z'']" by simp
  show ?thesis
    unfolding new_RotationGate_def Let_def deg toFixed_45 using assms ax by simp
qed

lemma new_RotationGate_Z_pi:
  assumes "\<not> q < Num 0"
  shows "new_RotationGate toStr ''Z'' q Math_PI
     = Inr \<lparr>name = ''RZ(180.0'' @ [CHR 0xB0] @ '')'', qubits = [q], angle = Math_PI\<rparr>"
proof -
  have deg: "Math_PI * (Num 180 / Math_PI) = Num 180"
    by (simp only: deg_per_rad pi_deg)
  have ax: "''Z'' \<in> set [''X'', ''Y'', ''Z'']" by simp
  show ?thesis
    unfolding new_RotationGate_def Let_def deg toFixed_180 using assms ax by simp
qed



lemma new_RotationGate_fields:
  "new_RotationGate toStr axis q a = Inr g \<Longrightarrow>
     angle g = a \<and> qubits g = [q]
     \<and> name g = ''R'' @ axis @ ''('' @ toFixed toStr (a * (Num 180 / Math_PI)) 1 @ [CHR 0xB0] @ '')''"
  by (auto simp: new_RotationGate_def Let_def split: if_splits)





subsection \<open>The length of the qubit array\<close>

text \<open>
  Claim C10. A gate made by \<open>CNOTGate\<close> has exactly two qubit entries, so that
  \<open>qubits[0]\<close> and \<open>qubits[1]\<close> are the control and the target and never \<open>undefined\<close>;
  a gate made by any other exported constructor has exactly one entry, and its name is
  not \<open>CNOT\<close>, so it never reaches \<open>drawCNOTGate\<close>.
\<close>

theorem constructed_qubits_length:
  "(new_CNOTGate c t = Inr g1 \<longrightarrow>
      name g1 = ''CNOT'' \<and> length (qubits g1) = 2
      \<and> js_index (qubits g1) 0 = Some c \<and> js_index (qubits g1) 1 = Some t)
   \<and> (new_RotationGate toStr axis q a = Inr g2 \<longrightarrow>
        name g2 \<noteq> ''CNOT'' \<and> length (qubits g2) = 1)
   \<and> (new_HadamardGate q = Inr g3 \<longrightarrow> name g3 \<noteq> ''CNOT'' \<and> length (qubits g3) = 1)
   \<and> (new_PauliXGate q = Inr g4 \<longrightarrow> name g4 \<noteq> ''CNOT'' \<and> length (qubits g4) = 1)
   \<and> (new_PauliYGate q = Inr g5 \<longrightarrow> name g5 \<noteq> ''CNOT'' \<and> length (qubits g5) = 1)
   \<and> (new_PauliZGate q = Inr g6 \<longrightarrow> name g6 \<noteq> ''CNOT'' \<and> length (qubits g6) = 1)"
proof -
  have rot: "new_RotationGate toStr axis q a = Inr g2 \<longrightarrow>
        name g2 \<noteq> ''CNOT'' \<and> length (qubits g2) = 1"
    by (auto dest!: new_RotationGate_fields)
  have others:
    "new_CNOTGate c t = Inr g1 \<longrightarrow>
      name g1 = ''CNOT'' \<and> length (qubits g1) = 2
      \<and> js_index (qubits g1) 0 = Some c \<and> js_index (qubits g1) 1 = Some t"
    "new_HadamardGate q = Inr g3 \<longrightarrow> name g3 \<noteq> ''CNOT'' \<and> length (qubits g3) = 1"
    "new_PauliXGate q = Inr g4 \<longrightarrow> name g4 \<noteq> ''CNOT'' \<and> length (qubits g4) = 1"
    "new_PauliYGate q = Inr g5 \<longrightarrow> name g5 \<noteq> ''CNOT'' \<and> length (qubits g5) = 1"
    "new_PauliZGate q = Inr g6 \<longrightarrow> name g6 \<noteq> ''CNOT'' \<and> length (qubits g6) = 1"
    by (auto simp: js_index_def new_CNOTGate_def new_HadamardGate_def new_PauliXGate_def
        new_PauliYGate_def new_PauliZGate_def split: if_splits)
  from rot others show ?thesis by blast
qed

theorem constructed_qubits_length_witness:
  "new_CNOTGate (Num 1) (Num 0) = Inr \<lparr>name = ''CNOT'', qubits = [Num 1, Num 0]\<rparr>
   \<and> length [Num 1, Num 0] = 2
   \<and> js_index [Num 1, Num 0] 0 = Some (Num 1) \<and> js_index [Num 1, Num 0] 1 = Some (Num 0)
   \<and> new_RotationGate (\<lambda>x. []) ''Z'' (Num 3) Math_PI
       = Inr \<lparr>name = ''RZ(180.0'' @ [CHR 0xB0] @ '')'', qubits = [Num 3], angle = Math_PI\<rparr>
   \<and> new_HadamardGate (Num 3) = Inr \<lparr>name = ''H'', qubits = [Num 3]\<rparr>
   \<and> new_PauliXGate (Num 3) = Inr \<lparr>name = ''X'', qubits = [Num 3]\<rparr>
   \<and> new_PauliYGate (Num 3) = Inr \<lparr>name = ''Y'', qubits = [Num 3]\<rparr>
   \<and> new_PauliZGate (Num 3) = Inr \<lparr>name = ''Z'', qubits = [Num 3]\<rparr>
   \<and> length [Num 3] = 1"
proof -
  have c: "new_CNOTGate (Num 1) (Num 0) = Inr \<lparr>name = ''CNOT'', qubits = [Num 1, Num 0]\<rparr>"
    by (simp add: new_CNOTGate_def)
  have h: "new_HadamardGate (Num 3) = Inr \<lparr>name = ''H'', qubits = [Num 3]\<rparr>"
    by (simp add: new_HadamardGate_def)
  have x: "new_PauliXGate (Num 3) = Inr \<lparr>name = ''X'', qubits = [Num 3]\<rparr>"
    by (simp add: new_PauliXGate_def)
  have y: "new_PauliYGate (Num 3) = Inr \<lparr>name = ''Y'', qubits = [Num 3]\<rparr>"
    by (simp add: new_PauliYGate_def)
  have z: "new_PauliZGate (Num 3) = Inr \<lparr>name = ''Z'', qubits = [Num 3]\<rparr>"
    by (simp add: new_PauliZGate_def)
  have r: "new_RotationGate (\<lambda>x. []) ''Z'' (Num 3) Math_PI
       = Inr \<lparr>name = ''RZ(180.0'' @ [CHR 0xB0] @ '')'', qubits = [Num 3], angle = Math_PI\<rparr>"
    by (rule new_RotationGate_Z_pi) simp
  from constructed_qubits_length[where c = "Num 1" and t = "Num 0" and q = "Num 3"
      and toStr = "\<lambda>x. []" and axis = "''Z''" and a = Math_PI
      and ?g1.0 = "\<lparr>name = ''CNOT'', qubits = [Num 1, Num 0]\<rparr>"
      and ?g2.0 = "\<lparr>name = ''RZ(180.0'' @ [CHR 0xB0] @ '')'', qubits = [Num 3], angle = Math_PI\<rparr>"
      and ?g3.0 = "\<lparr>name = ''H'', qubits = [Num 3]\<rparr>"
      and ?g4.0 = "\<lparr>name = ''X'', qubits = [Num 3]\<rparr>"
      and ?g5.0 = "\<lparr>name = ''Y'', qubits = [Num 3]\<rparr>"
      and ?g6.0 = "\<lparr>name = ''Z'', qubits = [Num 3]\<rparr>"] c h x y z r
  show ?thesis by simp
qed

subsection \<open>The dispatch on the gate name\<close>

lemma draw_gate_at_dispatch:
  "draw_gate_at st gate x s =
     (case dispatch (name gate) of
        ControlTarget \<Rightarrow> drawCNOTGate st gate x s
      | RotationBox \<Rightarrow> drawRotationGate st gate x s
      | SingleBox \<Rightarrow>
          forEach (\<lambda>qubit index. draw_single_qubit st gate x qubit) (qubits gate) s)"
  by (simp add: draw_gate_at_def dispatch_def)

text \<open>
  Claim C9. The branch \<open>draw\<close> takes is the one \<open>dispatch\<close> names, and for a gate made
  by an exported constructor it is the strategy of the gate's class: control-target for
  a \<open>CNOTGate\<close>, rotation box for a \<open>RotationGate\<close>, single box for the Hadamard and
  the three Pauli gates.
\<close>

theorem dispatch_matches_class:
  "(draw_gate_at st gate x s =
      (case dispatch (name gate) of
         ControlTarget \<Rightarrow> drawCNOTGate st gate x s
       | RotationBox \<Rightarrow> drawRotationGate st gate x s
       | SingleBox \<Rightarrow>
           forEach (\<lambda>qubit index. draw_single_qubit st gate x qubit) (qubits gate) s))
   \<and> (new_CNOTGate c t = Inr g1 \<longrightarrow> dispatch (name g1) = ControlTarget)
   \<and> (new_RotationGate toStr axis q a = Inr g2 \<longrightarrow> dispatch (name g2) = RotationBox)
   \<and> (new_HadamardGate q = Inr g3 \<longrightarrow> dispatch (name g3) = SingleBox)
   \<and> (new_PauliXGate q = Inr g4 \<longrightarrow> dispatch (name g4) = SingleBox)
   \<and> (new_PauliYGate q = Inr g5 \<longrightarrow> dispatch (name g5) = SingleBox)
   \<and> (new_PauliZGate q = Inr g6 \<longrightarrow> dispatch (name g6) = SingleBox)"
proof -
  have rot: "new_RotationGate toStr axis q a = Inr g2 \<longrightarrow> dispatch (name g2) = RotationBox"
    by (auto simp: dispatch_def dest!: new_RotationGate_fields)
  have others:
    "new_CNOTGate c t = Inr g1 \<longrightarrow> dispatch (name g1) = ControlTarget"
    "new_HadamardGate q = Inr g3 \<longrightarrow> dispatch (name g3) = SingleBox"
    "new_PauliXGate q = Inr g4 \<longrightarrow> dispatch (name g4) = SingleBox"
    "new_PauliYGate q = Inr g5 \<longrightarrow> dispatch (name g5) = SingleBox"
    "new_PauliZGate q = Inr g6 \<longrightarrow> dispatch (name g6) = SingleBox"
    by (auto simp: dispatch_def new_CNOTGate_def new_HadamardGate_def new_PauliXGate_def
        new_PauliYGate_def new_PauliZGate_def split: if_splits)
  from rot others draw_gate_at_dispatch[of st gate x s] show ?thesis by blast
qed

theorem dispatch_matches_class_witness:
  "new_CNOTGate (Num 0) (Num 1) = Inr \<lparr>name = ''CNOT'', qubits = [Num 0, Num 1]\<rparr>
   \<and> dispatch ''CNOT'' = ControlTarget
   \<and> new_RotationGate (\<lambda>x. []) ''Y'' (Num 2) (Math_PI / Num 4)
       = Inr \<lparr>name = ''RY(45.0'' @ [CHR 0xB0] @ '')'', qubits = [Num 2],
               angle = Math_PI / Num 4\<rparr>
   \<and> dispatch (''RY(45.0'' @ [CHR 0xB0] @ '')'') = RotationBox
   \<and> new_HadamardGate (Num 2) = Inr \<lparr>name = ''H'', qubits = [Num 2]\<rparr>
   \<and> dispatch ''H'' = SingleBox
   \<and> new_PauliXGate (Num 2) = Inr \<lparr>name = ''X'', qubits = [Num 2]\<rparr>
   \<and> dispatch ''X'' = SingleBox
   \<and> new_PauliYGate (Num 2) = Inr \<lparr>name = ''Y'', qubits = [Num 2]\<rparr>
   \<and> dispatch ''Y'' = SingleBox
   \<and> new_PauliZGate (Num 2) = Inr \<lparr>name = ''Z'', qubits = [Num 2]\<rparr>
   \<and> dispatch ''Z'' = SingleBox"
proof -
  have c: "new_CNOTGate (Num 0) (Num 1) = Inr \<lparr>name = ''CNOT'', qubits = [Num 0, Num 1]\<rparr>"
    by (simp add: new_CNOTGate_def)
  have h: "new_HadamardGate (Num 2) = Inr \<lparr>name = ''H'', qubits = [Num 2]\<rparr>"
    by (simp add: new_HadamardGate_def)
  have x: "new_PauliXGate (Num 2) = Inr \<lparr>name = ''X'', qubits = [Num 2]\<rparr>"
    by (simp add: new_PauliXGate_def)
  have y: "new_PauliYGate (Num 2) = Inr \<lparr>name = ''Y'', qubits = [Num 2]\<rparr>"
    by (simp add: new_PauliYGate_def)
  have z: "new_PauliZGate (Num 2) = Inr \<lparr>name = ''Z'', qubits = [Num 2]\<rparr>"
    by (simp add: new_PauliZGate_def)
  have r: "new_RotationGate (\<lambda>x. []) ''Y'' (Num 2) (Math_PI / Num 4)
       = Inr \<lparr>name = ''RY(45.0'' @ [CHR 0xB0] @ '')'', qubits = [Num 2],
               angle = Math_PI / Num 4\<rparr>"
    by (rule new_RotationGate_Y_quarter) simp
  from dispatch_matches_class[where c = "Num 0" and t = "Num 1" and q = "Num 2"
      and toStr = "\<lambda>x. []" and axis = "''Y''" and a = "Math_PI / Num 4"
      and ?g1.0 = "\<lparr>name = ''CNOT'', qubits = [Num 0, Num 1]\<rparr>"
      and ?g2.0 = "\<lparr>name = ''RY(45.0'' @ [CHR 0xB0] @ '')'', qubits = [Num 2],
               angle = Math_PI / Num 4\<rparr>"
      and ?g3.0 = "\<lparr>name = ''H'', qubits = [Num 2]\<rparr>"
      and ?g4.0 = "\<lparr>name = ''X'', qubits = [Num 2]\<rparr>"
      and ?g5.0 = "\<lparr>name = ''Y'', qubits = [Num 2]\<rparr>"
      and ?g6.0 = "\<lparr>name = ''Z'', qubits = [Num 2]\<rparr>"] c h x y z r
  show ?thesis by simp
qed

subsection \<open>The shape of a CNOT gate\<close>

text \<open>
  Claim C7. Let the gate at position \<open>j\<close> of the circuit be one made by \<open>CNOTGate\<close> with
  control \<open>c\<close> and target \<open>t\<close>, and let \<open>x = gateSpacing \<times> (j + 1)\<close>,
  \<open>y1 = qubitSpacing \<times> (c + 1)\<close> and \<open>y2 = qubitSpacing \<times> (t + 1)\<close>. Then \<open>draw\<close> emits the
  resize, the lines of the qubits, the elements of the gates before position \<open>j\<close>, then
  for this gate exactly five elements, in this order, whichever of \<open>y1\<close> and \<open>y2\<close> is
  the larger, and then the elements of the gates after position \<open>j\<close>:
  \<^item> a circle of diameter 8 filled with the gate stroke colour and not stroked, its box
    at \<open>(x - 4, y1 - 4)\<close>, a radius left of and above \<open>(x, y1)\<close>, which is its centre;
  \<^item> a line from \<open>(x, y1)\<close> to \<open>(x, y2)\<close> in the line colour and width;
  \<^item> a circle of diameter 20 filled white and stroked in the gate stroke colour and
    width, its box at \<open>(x - 10, y2 - 10)\<close>, a radius left of and above its centre
    \<open>(x, y2)\<close>;
  \<^item> the line from \<open>(x - 5, y2)\<close> to \<open>(x + 5, y2)\<close> and the line from \<open>(x, y2 - 5)\<close> to
    \<open>(x, y2 + 5)\<close>, in the gate stroke colour and width.

  The numbers 8, 4, 20, 10 and 5 are the same for every style configuration.
\<close>

theorem cnot_shape:
  fixes r :: Renderer and j :: nat and c t x y1 y2 :: number
  defines "x \<equiv> gateSpacing (styles r) * (number_of_nat j + Num 1)"
    and "y1 \<equiv> qubitSpacing (styles r) * (c + Num 1)"
    and "y2 \<equiv> qubitSpacing (styles r) * (t + Num 1)"
  assumes "j < length (gates (circuit r))"
    and "new_CNOTGate c t = Inr (gates (circuit r) ! j)"
  shows "emitted r =
     Size (gateSpacing (styles r) * (number_of_nat (length (gates (circuit r))) + Num 1)
              + gateSpacing (styles r))
          (qubitSpacing (styles r) * (numQubits (circuit r) + Num 1))
     # map (baseline (styles r)
              (gateSpacing (styles r) * (number_of_nat (length (gates (circuit r))) + Num 1)))
         [0..<line_count (numQubits (circuit r))]
     @ concat (map (\<lambda>k. draw_gate_at (styles r) (gates (circuit r) ! k)
                           (gateSpacing (styles r) * (number_of_nat k + Num 1)) [])
                 [0..<j])
     @ [Circle (Num 8) (x - Num 4) (y1 - Num 4) (gateStroke (styles r)) None,
        Line x y1 x y2 (lineWidth (styles r)) (lineColor (styles r)),
        Circle (Num 20) (x - Num 10) (y2 - Num 10) ''#fff''
          (Some (gateStrokeWidth (styles r), gateStroke (styles r))),
        Line (x - Num 5) y2 (x + Num 5) y2
          (gateStrokeWidth (styles r)) (gateStroke (styles r)),
        Line x (y2 - Num 5) x (y2 + Num 5)
          (gateStrokeWidth (styles r)) (gateStroke (styles r))]
     @ concat (map (\<lambda>k. draw_gate_at (styles r) (gates (circuit r) ! k)
                           (gateSpacing (styles r) * (number_of_nat k + Num 1)) [])
                 [Suc j..<length (gates (circuit r))])"
proof -
  from assms(5) have g: "gates (circuit r) ! j = \<lparr>name = ''CNOT'', qubits = [c, t]\<rparr>"
    by (simp add: new_CNOTGate_def split: if_splits)
  have "draw_gate_at (styles r) (gates (circuit r) ! j) x [] =
      [Circle (Num 8) (x - Num 4) (y1 - Num 4) (gateStroke (styles r)) None,
       Line x y1 x y2 (lineWidth (styles r)) (lineColor (styles r)),
       Circle (Num 20) (x - Num 10) (y2 - Num 10) ''#fff''
         (Some (gateStrokeWidth (styles r), gateStroke (styles r))),
       Line (x - Num 5) y2 (x + Num 5) y2
         (gateStrokeWidth (styles r)) (gateStroke (styles r)),
       Line x (y2 - Num 5) x (y2 + Num 5)
         (gateStrokeWidth (styles r)) (gateStroke (styles r))]"
    unfolding draw_gate_at_elements by (simp add: g js_index_def y1_def y2_def)
  then show ?thesis
    unfolding emitted_split[OF assms(4)] x_def by simp
qed

text \<open>
  The control below the target: two qubits and one CNOT gate with control 1 and target
  0, with the default styles, so \<open>x = 70\<close>, \<open>y1 = 100\<close> and \<open>y2 = 50\<close>.
\<close>

theorem cnot_shape_witness:
  "(0 :: nat) < length (gates (circuit (new_Renderer
       \<lparr>numQubits = Num 2, gates = [\<lparr>name = ''CNOT'', qubits = [Num 1, Num 0]\<rparr>]\<rparr>
       ''circuit-container'' None)))
   \<and> new_CNOTGate (Num 1) (Num 0) = Inr \<lparr>name = ''CNOT'', qubits = [Num 1, Num 0]\<rparr>
   \<and> emitted (new_Renderer
         \<lparr>numQubits = Num 2, gates = [\<lparr>name = ''CNOT'', qubits = [Num 1, Num 0]\<rparr>]\<rparr>
         ''circuit-container'' None)
       = [Size (Num 210) (Num 150),
          Line (Num 0) (Num 50) (Num 140) (Num 50) (Num 2) ''#000'',
          Line (Num 0) (Num 100) (Num 140) (Num 100) (Num 2) ''#000'',
          Circle (Num 8) (Num 66) (Num 96) ''#000'' None,
          Line (Num 70) (Num 100) (Num 70) (Num 50) (Num 2) ''#000'',
          Circle (Num 20) (Num 60) (Num 40) ''#fff'' (Some (Num 2, ''#000'')),
          Line (Num 65) (Num 50) (Num 75) (Num 50) (Num 2) ''#000'',
          Line (Num 70) (Num 45) (Num 70) (Num 55) (Num 2) ''#000'']"
proof -
  let ?r = "new_Renderer
       \<lparr>numQubits = Num 2, gates = [\<lparr>name = ''CNOT'', qubits = [Num 1, Num 0]\<rparr>]\<rparr>
       ''circuit-container'' None"
  have st: "styles ?r = DefaultStyleConfig"
    by (simp add: new_Renderer_def spread_def no_overrides_def DefaultStyleConfig_def)
  have ci: "circuit ?r =
      \<lparr>numQubits = Num 2, gates = [\<lparr>name = ''CNOT'', qubits = [Num 1, Num 0]\<rparr>]\<rparr>"
    by (simp add: new_Renderer_def)
  have len: "(0 :: nat) < length (gates (circuit ?r))"
    by (simp add: ci)
  have c: "new_CNOTGate (Num 1) (Num 0) = Inr (gates (circuit ?r) ! 0)"
    by (simp add: ci new_CNOTGate_def)
  have lines: "[0..<2] = [0, Suc 0]"
    by (simp add: upt_rec)
  from cnot_shape[OF len c] len c
  show ?thesis
    by (simp add: st ci lines baseline_def Let_def DefaultStyleConfig_def number_of_nat_def
        fl_small)
qed

subsection \<open>The vertical position of a qubit\<close>

lemma nth_baseline:
  assumes "number_of_nat i < numQubits (circuit r)"
  shows "svg (draw r) ! (length (svg r) + 1 + i) =
     baseline (styles r)
       (gateSpacing (styles r) * (number_of_nat (length (gates (circuit r))) + Num 1)) i"
proof -
  from assms have i: "i < line_count (numQubits (circuit r))"
    by (simp add: lt_line_count)
  show ?thesis
    unfolding svg_draw using i by (simp add: nth_append)
qed

lemma constructed_single_qubit_gate:
  "new_HadamardGate q = Inr g \<Longrightarrow> single_qubit_gate_on g q"
  "new_PauliXGate q = Inr g \<Longrightarrow> single_qubit_gate_on g q"
  "new_PauliYGate q = Inr g \<Longrightarrow> single_qubit_gate_on g q"
  "new_PauliZGate q = Inr g \<Longrightarrow> single_qubit_gate_on g q"
  by (auto simp: single_qubit_gate_on_def new_HadamardGate_def new_PauliXGate_def
      new_PauliYGate_def new_PauliZGate_def split: if_splits)

lemma constructed_rotation_gate:
  "new_RotationGate toStr axis q a = Inr g \<Longrightarrow> single_qubit_gate_on (IGate.truncate g) q"
  by (auto simp: single_qubit_gate_on_def new_RotationGate_def Let_def IGate.truncate_def
      split: if_splits)

text \<open>
  Claim C4. For a qubit index \<open>i\<close> below \<open>numQubits\<close>, let \<open>y = qubitSpacing \<times> (i + 1)\<close>.
  \<^item> The line \<open>draw\<close> adds for qubit \<open>i\<close> (the element after the resize and the lines of
    the qubits before \<open>i\<close>) runs at the height \<open>y\<close>, from 0 to the total width.
  \<^item> When the gate at position \<open>j\<close> of the circuit is a single-qubit gate on qubit \<open>i\<close>,
    \<open>draw\<close> emits for it, after the resize, the lines and the elements of the gates
    before \<open>j\<close> and before the elements of the gates after \<open>j\<close>, a rectangle of the
    configured width and height whose upper edge is at \<open>y - gateHeight / 2\<close>, half its
    height above the line of the qubit, on which it is centred, and a label at that edge
    plus \<open>gateHeight / 2\<close>.
  \<^item> The Hadamard, Pauli and rotation gates an exported constructor makes for the qubit
    \<open>q\<close> are such single-qubit gates on \<open>q\<close>.
\<close>

theorem qubit_baseline_shared:
  fixes r :: Renderer and i j :: nat and x y :: number
  defines "y \<equiv> qubitSpacing (styles r) * (number_of_nat i + Num 1)"
    and "x \<equiv> gateSpacing (styles r) * (number_of_nat j + Num 1)"
  shows "(number_of_nat i < numQubits (circuit r) \<longrightarrow>
      svg (draw r) ! (length (svg r) + 1 + i) =
        Line (Num 0) y
          (gateSpacing (styles r) * (number_of_nat (length (gates (circuit r))) + Num 1))
          y (lineWidth (styles r)) (lineColor (styles r)))
   \<and> (j < length (gates (circuit r))
        \<and> single_qubit_gate_on (gates (circuit r) ! j) (number_of_nat i) \<longrightarrow>
        emitted r =
          Size (gateSpacing (styles r)
                  * (number_of_nat (length (gates (circuit r))) + Num 1)
                + gateSpacing (styles r))
               (qubitSpacing (styles r) * (numQubits (circuit r) + Num 1))
          # map (baseline (styles r)
                   (gateSpacing (styles r)
                      * (number_of_nat (length (gates (circuit r))) + Num 1)))
              [0..<line_count (numQubits (circuit r))]
          @ concat (map (\<lambda>k. draw_gate_at (styles r) (gates (circuit r) ! k)
                                (gateSpacing (styles r) * (number_of_nat k + Num 1)) [])
                      [0..<j])
          @ [Rect (gateWidth (styles r)) (gateHeight (styles r))
               (x - gateWidth (styles r) / Num 2)
               (y - gateHeight (styles r) / Num 2)
               (gateFill (styles r)) (gateStrokeWidth (styles r)) (gateStroke (styles r)),
             Text (name (gates (circuit r) ! j)) x
               (y - gateHeight (styles r) / Num 2 + gateHeight (styles r) / Num 2)
               (if startsWith (name (gates (circuit r) ! j)) ''R''
                then fontSize (styles r) - Num 2 else fontSize (styles r))
               (fontFamily (styles r)) (fontColor (styles r)) ''middle'' ''middle'']
          @ concat (map (\<lambda>k. draw_gate_at (styles r) (gates (circuit r) ! k)
                                (gateSpacing (styles r) * (number_of_nat k + Num 1)) [])
                      [Suc j..<length (gates (circuit r))]))
   \<and> (new_HadamardGate q = Inr g1 \<longrightarrow> single_qubit_gate_on g1 q)
   \<and> (new_PauliXGate q = Inr g2 \<longrightarrow> single_qubit_gate_on g2 q)
   \<and> (new_PauliYGate q = Inr g3 \<longrightarrow> single_qubit_gate_on g3 q)
   \<and> (new_PauliZGate q = Inr g4 \<longrightarrow> single_qubit_gate_on g4 q)
   \<and> (new_RotationGate toStr axis q a = Inr g5 \<longrightarrow>
        single_qubit_gate_on (IGate.truncate g5) q)"
proof -
  have line: "number_of_nat i < numQubits (circuit r) \<longrightarrow>
      svg (draw r) ! (length (svg r) + 1 + i) =
        Line (Num 0) y
          (gateSpacing (styles r) * (number_of_nat (length (gates (circuit r))) + Num 1))
          y (lineWidth (styles r)) (lineColor (styles r))"
    using nth_baseline[of i r] by (simp add: baseline_def Let_def y_def)
  have box: "emitted r =
          Size (gateSpacing (styles r)
                  * (number_of_nat (length (gates (circuit r))) + Num 1)
                + gateSpacing (styles r))
               (qubitSpacing (styles r) * (numQubits (circuit r) + Num 1))
          # map (baseline (styles r)
                   (gateSpacing (styles r)
                      * (number_of_nat (length (gates (circuit r))) + Num 1)))
              [0..<line_count (numQubits (circuit r))]
          @ concat (map (\<lambda>k. draw_gate_at (styles r) (gates (circuit r) ! k)
                                (gateSpacing (styles r) * (number_of_nat k + Num 1)) [])
                      [0..<j])
          @ [Rect (gateWidth (styles r)) (gateHeight (styles r))
               (x - gateWidth (styles r) / Num 2)
               (y - gateHeight (styles r) / Num 2)
               (gateFill (styles r)) (gateStrokeWidth (styles r)) (gateStroke (styles r)),
             Text (name (gates (circuit r) ! j)) x
               (y - gateHeight (styles r) / Num 2 + gateHeight (styles r) / Num 2)
               (if startsWith (name (gates (circuit r) ! j)) ''R''
                then fontSize (styles r) - Num 2 else fontSize (styles r))
               (fontFamily (styles r)) (fontColor (styles r)) ''middle'' ''middle'']
          @ concat (map (\<lambda>k. draw_gate_at (styles r) (gates (circuit r) ! k)
                                (gateSpacing (styles r) * (number_of_nat k + Num 1)) [])
                      [Suc j..<length (gates (circuit r))])"
    if j: "j < length (gates (circuit r))"
      and s: "single_qubit_gate_on (gates (circuit r) ! j) (number_of_nat i)"
  proof -
    from s have
      "draw_gate_at (styles r) (gates (circuit r) ! j) x [] =
        [Rect (gateWidth (styles r)) (gateHeight (styles r))
           (x - gateWidth (styles r) / Num 2)
           (y - gateHeight (styles r) / Num 2)
           (gateFill (styles r)) (gateStrokeWidth (styles r)) (gateStroke (styles r)),
         Text (name (gates (circuit r) ! j)) x
           (y - gateHeight (styles r) / Num 2 + gateHeight (styles r) / Num 2)
           (if startsWith (name (gates (circuit r) ! j)) ''R''
            then fontSize (styles r) - Num 2 else fontSize (styles r))
           (fontFamily (styles r)) (fontColor (styles r)) ''middle'' ''middle'']"
      unfolding draw_gate_at_elements by (simp add: single_qubit_gate_on_def y_def)
    then show ?thesis
      unfolding emitted_split[OF j] x_def by simp
  qed
  from line box constructed_single_qubit_gate[of q]
    constructed_rotation_gate[of toStr axis q a g5]
  show ?thesis by blast
qed

text \<open>
  Qubit 0 of the README's circuit with the default styles: its line is at height 50, and
  the Hadamard gate on it, at position 0 and so at the offset 70, is a rectangle with its
  upper edge at 30, for a gate height of 40, and a label at height 50.
\<close>

theorem qubit_baseline_shared_witness:
  "number_of_nat 0 < numQubits (circuit example_renderer)
   \<and> svg (draw example_renderer) ! (length (svg example_renderer) + 1 + 0)
       = Line (Num 0) (Num 50) (Num 210) (Num 50) (Num 2) ''#000''
   \<and> 0 < length (gates (circuit example_renderer))
   \<and> new_HadamardGate (number_of_nat 0) = Inr (gates (circuit example_renderer) ! 0)
   \<and> single_qubit_gate_on (gates (circuit example_renderer) ! 0) (number_of_nat 0)
   \<and> emitted example_renderer
       = [Size (Num 280) (Num 150),
          Line (Num 0) (Num 50) (Num 210) (Num 50) (Num 2) ''#000'',
          Line (Num 0) (Num 100) (Num 210) (Num 100) (Num 2) ''#000'',
          Rect (Num 40) (Num 40) (Num 50) (Num 30) ''#fff'' (Num 2) ''#000'',
          Text ''H'' (Num 70) (Num 50) (Num 14) ''Arial, sans-serif'' ''#000''
            ''middle'' ''middle'']
         @ draw_gate_at DefaultStyleConfig \<lparr>name = ''CNOT'', qubits = [Num 0, Num 1]\<rparr>
             (Num 140) []"
proof -
  have lt: "number_of_nat 0 < numQubits (circuit example_renderer)"
    by (simp add: example_circuit_of example_circuit_def number_of_nat_def)
  have len: "0 < length (gates (circuit example_renderer))"
    by (simp add: example_circuit_of example_circuit_def)
  have h: "new_HadamardGate (number_of_nat 0) = Inr (gates (circuit example_renderer) ! 0)"
    by (simp add: new_HadamardGate_def number_of_nat_def example_circuit_of
        example_circuit_def)
  have lines: "[0..<2] = [0, Suc 0]"
    by (simp add: upt_rec)
  have x: "Num 70 * (number_of_nat (Suc 0) + Num 1) = Num 140"
    by (simp add: number_of_nat_def fl_small)
  note T = qubit_baseline_shared[where r = example_renderer and i = 0 and j = 0
      and q = "number_of_nat 0" and ?g1.0 = "gates (circuit example_renderer) ! 0"]
  from T lt len h have s:
    "single_qubit_gate_on (gates (circuit example_renderer) ! 0) (number_of_nat 0)"
    by blast
  from T lt len h s have
    "svg (draw example_renderer) ! (length (svg example_renderer) + 1 + 0)
       = Line (Num 0) (Num 50) (Num 210) (Num 50) (Num 2) ''#000''"
    by (simp add: example_styles example_circuit_of example_circuit_def
        DefaultStyleConfig_def number_of_nat_def fl_small)
  moreover from T lt len h s have
    "emitted example_renderer
       = [Size (Num 280) (Num 150),
          Line (Num 0) (Num 50) (Num 210) (Num 50) (Num 2) ''#000'',
          Line (Num 0) (Num 100) (Num 210) (Num 100) (Num 2) ''#000'',
          Rect (Num 40) (Num 40) (Num 50) (Num 30) ''#fff'' (Num 2) ''#000'',
          Text ''H'' (Num 70) (Num 50) (Num 14) ''Arial, sans-serif'' ''#000''
            ''middle'' ''middle'']
         @ draw_gate_at DefaultStyleConfig \<lparr>name = ''CNOT'', qubits = [Num 0, Num 1]\<rparr>
             (Num 140) []"
    by (simp add: example_styles example_circuit_of example_circuit_def lines x
        baseline_def Let_def upt_rec[of 1] DefaultStyleConfig_def number_of_nat_def fl_small)
  ultimately show ?thesis using lt len h s by simp
qed

subsection \<open>The columns of the gates\<close>

lemma gates_addGate: "gates (addGate c gate) = gates c @ [IGate.truncate gate]"
  by (simp add: addGate_def)

lemma offsets_distinct:
  assumes "g \<noteq> 0" and "j < k" and "\<bar>g\<bar> * (int k + 1) \<le> 2 ^ 53"
  shows "Num (of_int g) * column j \<noteq> Num (of_int g) * column k"
proof -
  have g1: "1 \<le> \<bar>g\<bar>" using assms(1) by simp
  then have "int k + 1 \<le> \<bar>g\<bar> * (int k + 1)"
    by (simp add: mult_le_cancel_right1)
  with assms(3) have k53: "int k + 1 \<le> 2 ^ 53" by linarith
  then have kb: "k < 2 ^ 53" by (simp add: nat_less_iff [symmetric])
  with assms(2) have jb: "j < 2 ^ 53" by simp
  have bound: "\<bar>g * (int i + 1)\<bar> \<le> 2 ^ 53" if "i \<le> k" for i
  proof -
    have "\<bar>g\<bar> * (int i + 1) \<le> \<bar>g\<bar> * (int k + 1)"
      using that by (intro mult_left_mono) simp_all
    with assms(3) show ?thesis by (simp add: abs_mult)
  qed
  have prod: "Num (of_int g) * column i = Num (of_int (g * (int i + 1)))"
    if "i \<le> k" for i
  proof -
    from that kb have "i < 2 ^ 53" by simp
    then have "column i = Num (of_int (int i + 1))"
      by (simp add: column_Suc number_of_nat_def add.commute)
    moreover have "fl (of_int (g * (int i + 1))) = of_int (g * (int i + 1))"
      by (rule fl_of_int) (rule bound[OF that])
    ultimately show ?thesis by simp
  qed
  have "g * (int j + 1) \<noteq> g * (int k + 1)"
    using assms(1,2) by simp
  then show ?thesis
    using prod[of j] prod[of k] assms(2) by simp
qed

lemma offsets_coincide_without_spacing:
  "Num 0 * (number_of_nat j + Num 1) = Num 0 * (number_of_nat k + Num 1)"
  by (simp add: number_of_nat_def fl_0)

text \<open>
  Claim C5. \<open>draw\<close> emits the resize, the lines of the qubits and then the elements of
  the gates in the order of the gate array. Those of the gate at position \<open>j\<close> are drawn
  at the offset \<open>x = gateSpacing \<times> (j + 1)\<close>, whatever the qubits of the gates are: for a
  gate named \<open>CNOT\<close> the two circles around \<open>x\<close>, the connector at \<open>x\<close> and the plus sign
  around \<open>x\<close>; for every other gate, per qubit, a rectangle that starts half a gate width
  left of \<open>x\<close>, and a label at \<open>x\<close>. The qubits only enter the vertical coordinates.

  The column \<open>j + 1\<close> that the code multiplies the gate spacing by is the number \<open>j + 1\<close>
  indeed, so two positions never have the same column, and for a gate spacing that is a
  nonzero integer their offsets differ as well (all numbers being in the range where
  doubles are exact). With the gate spacing 0 the columns are distinct all the same,
  while every offset is 0 (lemma \<open>offsets_coincide_without_spacing\<close>). \<open>addGate\<close> puts a
  gate at the end of the array, after the gates that are there, which keep their
  positions.
\<close>

theorem gate_columns:
  fixes r :: Renderer and j k :: nat and g :: int and st :: StyleConfig
  defines "st \<equiv> styles r"
  shows "emitted r =
     Size (gateSpacing st * (number_of_nat (length (gates (circuit r))) + Num 1)
             + gateSpacing st)
          (qubitSpacing st * (numQubits (circuit r) + Num 1))
     # map (\<lambda>i. Line (Num 0) (qubitSpacing st * (number_of_nat i + Num 1))
                   (gateSpacing st * (number_of_nat (length (gates (circuit r))) + Num 1))
                   (qubitSpacing st * (number_of_nat i + Num 1))
                   (lineWidth st) (lineColor st))
         [0..<line_count (numQubits (circuit r))]
     @ concat (map (\<lambda>j.
         let gate = gates (circuit r) ! j;
             x = gateSpacing st * (number_of_nat j + Num 1)
         in if name gate = ''CNOT'' then
              [Circle (Num 8) (x - Num 4)
                 (qubitSpacing st * (ToNumber (js_index (qubits gate) 0) + Num 1) - Num 4)
                 (gateStroke st) None,
               Line x (qubitSpacing st * (ToNumber (js_index (qubits gate) 0) + Num 1))
                    x (qubitSpacing st * (ToNumber (js_index (qubits gate) 1) + Num 1))
                 (lineWidth st) (lineColor st),
               Circle (Num 20) (x - Num 10)
                 (qubitSpacing st * (ToNumber (js_index (qubits gate) 1) + Num 1) - Num 10)
                 ''#fff'' (Some (gateStrokeWidth st, gateStroke st)),
               Line (x - Num 5)
                    (qubitSpacing st * (ToNumber (js_index (qubits gate) 1) + Num 1))
                    (x + Num 5)
                    (qubitSpacing st * (ToNumber (js_index (qubits gate) 1) + Num 1))
                 (gateStrokeWidth st) (gateStroke st),
               Line x
                    (qubitSpacing st * (ToNumber (js_index (qubits gate) 1) + Num 1) - Num 5)
                    x
                    (qubitSpacing st * (ToNumber (js_index (qubits gate) 1) + Num 1) + Num 5)
                 (gateStrokeWidth st) (gateStroke st)]
            else
              concat (map (\<lambda>qubit.
                [Rect (gateWidth st) (gateHeight st) (x - gateWidth st / Num 2)
                   (qubitSpacing st * (qubit + Num 1) - gateHeight st / Num 2)
                   (gateFill st) (gateStrokeWidth st) (gateStroke st),
                 Text (name gate) x
                   (qubitSpacing st * (qubit + Num 1) - gateHeight st / Num 2
                      + gateHeight st / Num 2)
                   (if startsWith (name gate) ''R'' then fontSize st - Num 2
                    else fontSize st)
                   (fontFamily st) (fontColor st) ''middle'' ''middle''])
                (qubits gate)))
         [0..<length (gates (circuit r))])
   \<and> (j < 2 ^ 53 \<longrightarrow> number_of_nat j + Num 1 = number_of_nat (j + 1))
   \<and> (j < 2 ^ 53 \<and> k < 2 ^ 53 \<and> j \<noteq> k \<longrightarrow>
        number_of_nat j + Num 1 \<noteq> number_of_nat k + Num 1)
   \<and> (gateSpacing st = Num (of_int g) \<and> g \<noteq> 0 \<and> j < k
        \<and> \<bar>g\<bar> * (int k + 1) \<le> 2 ^ 53 \<longrightarrow>
        gateSpacing st * (number_of_nat j + Num 1)
          \<noteq> gateSpacing st * (number_of_nat k + Num 1))
   \<and> gates (addGate c gate') = gates c @ [IGate.truncate gate']"
proof -
  have elements: "emitted r =
     Size (gateSpacing st * (number_of_nat (length (gates (circuit r))) + Num 1)
             + gateSpacing st)
          (qubitSpacing st * (numQubits (circuit r) + Num 1))
     # map (\<lambda>i. Line (Num 0) (qubitSpacing st * (number_of_nat i + Num 1))
                   (gateSpacing st * (number_of_nat (length (gates (circuit r))) + Num 1))
                   (qubitSpacing st * (number_of_nat i + Num 1))
                   (lineWidth st) (lineColor st))
         [0..<line_count (numQubits (circuit r))]
     @ concat (map (\<lambda>j. draw_gate_at st (gates (circuit r) ! j)
                           (gateSpacing st * (number_of_nat j + Num 1)) [])
         [0..<length (gates (circuit r))])"
    unfolding st_def emitted_draw by (simp add: column_def baseline_def Let_def)
  have cols1: "j < 2 ^ 53 \<longrightarrow> number_of_nat j + Num 1 = number_of_nat (j + 1)"
    using column_Suc[of j] by (simp add: column_def)
  have cols2: "j < 2 ^ 53 \<and> k < 2 ^ 53 \<and> j \<noteq> k \<longrightarrow>
        number_of_nat j + Num 1 \<noteq> number_of_nat k + Num 1"
    using column_inj[of j k] by (auto simp: column_def)
  have offs: "gateSpacing st = Num (of_int g) \<and> g \<noteq> 0 \<and> j < k
        \<and> \<bar>g\<bar> * (int k + 1) \<le> 2 ^ 53 \<longrightarrow>
        gateSpacing st * (number_of_nat j + Num 1)
          \<noteq> gateSpacing st * (number_of_nat k + Num 1)"
    using offsets_distinct[of g j k] by (auto simp: column_def)
  show ?thesis
    unfolding elements draw_gate_at_elements Let_def
    using cols1 cols2 offs gates_addGate[of c gate'] by simp
qed

text \<open>
  The README's circuit with the default styles: the Hadamard gate on qubit 0 at the
  offset 70, then the CNOT gate on the qubits 0 and 1 at the offset 140.
\<close>

theorem gate_columns_witness:
  "emitted example_renderer =
     [Size (Num 280) (Num 150),
      Line (Num 0) (Num 50) (Num 210) (Num 50) (Num 2) ''#000'',
      Line (Num 0) (Num 100) (Num 210) (Num 100) (Num 2) ''#000'',
      Rect (Num 40) (Num 40) (Num 50) (Num 30) ''#fff'' (Num 2) ''#000'',
      Text ''H'' (Num 70) (Num 50) (Num 14) ''Arial, sans-serif'' ''#000''
        ''middle'' ''middle'',
      Circle (Num 8) (Num 136) (Num 46) ''#000'' None,
      Line (Num 140) (Num 50) (Num 140) (Num 100) (Num 2) ''#000'',
      Circle (Num 20) (Num 130) (Num 90) ''#fff'' (Some (Num 2, ''#000'')),
      Line (Num 135) (Num 100) (Num 145) (Num 100) (Num 2) ''#000'',
      Line (Num 140) (Num 95) (Num 140) (Num 105) (Num 2) ''#000'']
   \<and> (0 :: nat) < 2 ^ 53 \<and> (1 :: nat) < 2 ^ 53
   \<and> number_of_nat 0 + Num 1 = number_of_nat 1
   \<and> number_of_nat 0 + Num 1 \<noteq> number_of_nat 1 + Num 1
   \<and> gateSpacing (styles example_renderer) = Num (of_int 70)
   \<and> \<bar>70 :: int\<bar> * (int 1 + 1) \<le> 2 ^ 53
   \<and> gateSpacing (styles example_renderer) * (number_of_nat 0 + Num 1)
       \<noteq> gateSpacing (styles example_renderer) * (number_of_nat 1 + Num 1)"
proof -
  have lines: "[0..<2] = [0, Suc 0]"
    by (simp add: upt_rec)
  have gs: "gateSpacing DefaultStyleConfig = Num (of_int 70)"
    by (simp add: DefaultStyleConfig_def)
  note T = gate_columns[where r = example_renderer and j = 0 and k = 1 and g = 70
      and c = example_circuit and gate' = "\<lparr>name = ''H'', qubits = [Num 0]\<rparr>"]
  have e: "emitted example_renderer =
     [Size (Num 280) (Num 150),
      Line (Num 0) (Num 50) (Num 210) (Num 50) (Num 2) ''#000'',
      Line (Num 0) (Num 100) (Num 210) (Num 100) (Num 2) ''#000'',
      Rect (Num 40) (Num 40) (Num 50) (Num 30) ''#fff'' (Num 2) ''#000'',
      Text ''H'' (Num 70) (Num 50) (Num 14) ''Arial, sans-serif'' ''#000''
        ''middle'' ''middle'',
      Circle (Num 8) (Num 136) (Num 46) ''#000'' None,
      Line (Num 140) (Num 50) (Num 140) (Num 100) (Num 2) ''#000'',
      Circle (Num 20) (Num 130) (Num 90) ''#fff'' (Some (Num 2, ''#000'')),
      Line (Num 135) (Num 100) (Num 145) (Num 100) (Num 2) ''#000'',
      Line (Num 140) (Num 95) (Num 140) (Num 105) (Num 2) ''#000'']"
    using T
    by (simp add: example_styles example_circuit_of example_circuit_def lines
        upt_rec[of 1] js_index_def Let_def DefaultStyleConfig_def number_of_nat_def fl_small)
  have c: "number_of_nat 0 + Num 1 = number_of_nat 1
      \<and> number_of_nat 0 + Num 1 \<noteq> number_of_nat 1 + Num 1
      \<and> gateSpacing (styles example_renderer) * (number_of_nat 0 + Num 1)
         \<noteq> gateSpacing (styles example_renderer) * (number_of_nat 1 + Num 1)"
  proof -
    have b: "(0 :: nat) < 2 ^ 53" "(1 :: nat) < 2 ^ 53" "(0 :: nat) \<noteq> 1" "(0 :: nat) < 1"
      "\<bar>70 :: int\<bar> * (int 1 + 1) \<le> 2 ^ 53" "(70 :: int) \<noteq> 0"
      "gateSpacing (styles example_renderer) = Num (of_int 70)"
      by (simp_all add: example_styles gs)
    from T have
      "(0 :: nat) < 2 ^ 53 \<longrightarrow> number_of_nat 0 + Num 1 = number_of_nat (0 + 1)"
      "(0 :: nat) < 2 ^ 53 \<and> (1 :: nat) < 2 ^ 53 \<and> (0 :: nat) \<noteq> 1 \<longrightarrow>
         number_of_nat 0 + Num 1 \<noteq> number_of_nat 1 + Num 1"
      "gateSpacing (styles example_renderer) = Num (of_int 70) \<and> (70 :: int) \<noteq> 0
         \<and> (0 :: nat) < 1 \<and> \<bar>70 :: int\<bar> * (int 1 + 1) \<le> 2 ^ 53 \<longrightarrow>
         gateSpacing (styles example_renderer) * (number_of_nat 0 + Num 1)
           \<noteq> gateSpacing (styles example_renderer) * (number_of_nat 1 + Num 1)"
      by blast+
    with b show ?thesis by simp
  qed
  have b: "(0 :: nat) < 2 ^ 53" "(1 :: nat) < 2 ^ 53"
    "\<bar>70 :: int\<bar> * (int 1 + 1) \<le> 2 ^ 53"
    "gateSpacing (styles example_renderer) = Num (of_int 70)"
    by (simp_all add: example_styles gs)
  from e c b show ?thesis by blast
qed

subsection \<open>Determinism\<close>

lemma svg_draw_emitted: "svg (draw r) = svg r @ emitted r"
  by (simp add: emitted_def svg_draw)

lemma draw_keeps: "circuit (draw r) = circuit r \<and> styles (draw r) = styles r"
  by (simp add: draw_def Let_def)

lemma emitted_cong:
  "circuit r1 = circuit r2 \<Longrightarrow> styles r1 = styles r2 \<Longrightarrow> emitted r1 = emitted r2"
  by (simp add: emitted_draw)

text \<open>
  Claim C8. The calls \<open>draw\<close> makes depend on the circuit and on the style configuration
  only: two renderers with the same circuit and the same styles emit the same calls, with
  the same arguments, in the same order, whatever their surfaces hold; and when their
  surfaces are equal too (both fresh), the surfaces are equal afterwards. \<open>draw\<close>
  changes neither the circuit nor the styles and appends to the surface, so that a second
  invocation emits the same calls again.
\<close>

theorem draw_deterministic:
  "(circuit r1 = circuit r2 \<and> styles r1 = styles r2 \<longrightarrow> emitted r1 = emitted r2)
   \<and> (circuit r1 = circuit r2 \<and> styles r1 = styles r2 \<and> svg r1 = svg r2 \<longrightarrow>
        svg (draw r1) = svg (draw r2))
   \<and> svg (draw r1) = svg r1 @ emitted r1
   \<and> circuit (draw r1) = circuit r1 \<and> styles (draw r1) = styles r1
   \<and> emitted (draw r1) = emitted r1"
proof -
  have a: "circuit r1 = circuit r2 \<and> styles r1 = styles r2 \<longrightarrow> emitted r1 = emitted r2"
    using emitted_cong[of r1 r2] by blast
  have b: "svg (draw r1) = svg r1 @ emitted r1" "svg (draw r2) = svg r2 @ emitted r2"
    by (rule svg_draw_emitted)+
  have c: "emitted (draw r1) = emitted r1"
    using draw_keeps[of r1] by (intro emitted_cong) simp_all
  from a b c draw_keeps[of r1] show ?thesis by auto
qed

text \<open>
  Two fresh renderers of the README's circuit, attached to the containers \<open>a\<close> and \<open>b\<close>.
\<close>

theorem draw_deterministic_witness:
  "circuit (new_Renderer example_circuit ''a'' None)
     = circuit (new_Renderer example_circuit ''b'' None)
   \<and> styles (new_Renderer example_circuit ''a'' None)
     = styles (new_Renderer example_circuit ''b'' None)
   \<and> emitted (new_Renderer example_circuit ''a'' None)
     = emitted (new_Renderer example_circuit ''b'' None)
   \<and> emitted (draw (new_Renderer example_circuit ''a'' None))
     = emitted (new_Renderer example_circuit ''b'' None)"
proof -
  have cs: "circuit (new_Renderer example_circuit ''a'' None)
        = circuit (new_Renderer example_circuit ''b'' None)"
    "styles (new_Renderer example_circuit ''a'' None)
        = styles (new_Renderer example_circuit ''b'' None)"
    by (simp_all add: new_Renderer_def)
  from draw_deterministic[of "new_Renderer example_circuit ''a'' None"
      "new_Renderer example_circuit ''b'' None"] cs
  show ?thesis by simp
qed

end
